theory Spec2Isabelle
  imports Main
begin

section \<open>Student Course Management API: data model\<close>

text \<open>
  The service of \<^verbatim>\<open>main.py\<close> keeps three tables (\<^verbatim>\<open>models.py\<close>) and
  exposes create, list, get, update and delete handlers for each. Every handler is a
  Python function that reads and writes the store through a session and either returns
  a value (sent with the status code of its decorator) or raises an
  \<^verbatim>\<open>HTTPException\<close>. The model passes the store explicitly: a mutating handler
  takes the store and returns its response together with the store it leaves behind.
  A reading of \<^verbatim>\<open>datetime.utcnow()\<close> is an argument of a handler (\<open>now\<close>, and
  \<open>now2\<close> where a request reads the clock twice).
\<close>

type_synonym datetime = int

text \<open>The rows of \<^verbatim>\<open>models.py\<close>. A stored row always has its primary key.\<close>

record Student =
  s_id :: int
  s_name :: string
  s_email :: string
  s_age :: int
  s_created_at :: datetime
  s_updated_at :: datetime

record Course =
  c_id :: int
  c_title :: string
  c_description :: "string option"
  c_credits :: int
  c_instructor :: string
  c_created_at :: datetime
  c_updated_at :: datetime

record Enrollment =
  e_id :: int
  e_student_id :: int
  e_course_id :: int
  e_grade :: "string option"
  e_enrollment_date :: datetime

text \<open>
  The request schemas of \<^verbatim>\<open>schemas.py\<close>. In an update schema every field is
  optional with default \<^verbatim>\<open>None\<close>; pydantic remembers which fields the body
  supplied, and \<^verbatim>\<open>model_dump(exclude_unset=True)\<close> returns exactly those. A field
  of a patch is therefore \<open>Unset\<close> (absent from the body) or \<open>Supplied v\<close>, where
  \<open>v = None\<close> is an explicit JSON \<^verbatim>\<open>null\<close>.
\<close>

datatype 'a field = Unset | Supplied "'a option"

record StudentCreate =
  sc_name :: string
  sc_email :: string
  sc_age :: int

record StudentUpdate =
  su_name :: "string field"
  su_email :: "string field"
  su_age :: "int field"

record CourseCreate =
  cc_title :: string
  cc_description :: "string option"
  cc_credits :: int
  cc_instructor :: string

record CourseUpdate =
  cu_title :: "string field"
  cu_description :: "string field"
  cu_credits :: "int field"
  cu_instructor :: "string field"

record EnrollmentCreate =
  ec_student_id :: int
  ec_course_id :: int
  ec_grade :: "string option"

record EnrollmentUpdate =
  eu_grade :: "string field"

text \<open>
  What a client receives: the returned value with the status code of the route,
  an \<^verbatim>\<open>HTTPException(status_code, detail)\<close>, or the 422 answer FastAPI gives
  when the body does not satisfy the schema of the handler's parameter.
\<close>

datatype 'a response =
    Response nat 'a
  | HTTPException nat string
  | RequestValidationError

fun status_code :: "'a response \<Rightarrow> nat" where
  "status_code (Response c _) = c"
| "status_code (HTTPException c _) = c"
| "status_code RequestValidationError = 422"

text \<open>The exceptions \<^verbatim>\<open>session.commit()\<close> can raise, as the handlers tell them apart:
  \<^verbatim>\<open>IntegrityError\<close> and any other \<^verbatim>\<open>Exception\<close>.\<close>

datatype db_exception = IntegrityError | OtherException

section \<open>The store\<close>

text \<open>
  Modelled from the spec: the relational store behind the session. \<^verbatim>\<open>database.py\<close>
  (engine and session) is not among the sources, so the store follows section 4.2 of
  the specification and the column declarations of \<^verbatim>\<open>models.py\<close>: each table
  keeps its rows in insertion order, \<open>insert\<close> assigns an id that no row of the
  table has, and the declared column constraints (\<^verbatim>\<open>NOT NULL\<close> for the
  non-optional columns, \<^verbatim>\<open>UNIQUE\<close> on \<^verbatim>\<open>student.email\<close>) are checked when a
  write is committed. Deleting a row has no cascade or restrict rule on the rows that
  reference it (sections 3 and 9 of the specification). The engine is the one of
  \<^verbatim>\<open>test_main.py\<close>, SQLite: an integer column holds a signed 64-bit value, and a
  primary key declared without \<^verbatim>\<open>AUTOINCREMENT\<close> gets one more than the largest
  id in the table.
\<close>

record store =
  students :: "Student list"
  courses :: "Course list"
  enrollments :: "Enrollment list"

definition empty_store :: store where
  "empty_store = \<lparr>students = [], courses = [], enrollments = []\<rparr>"

text \<open>
  The integers the driver can pass to the engine: a Python integer outside the signed
  64-bit range makes the call raise \<^verbatim>\<open>OverflowError\<close>.
\<close>

definition fits_int64 :: "int \<Rightarrow> bool" where
  "fits_int64 i \<longleftrightarrow> - 9223372036854775808 \<le> i \<and> i < 9223372036854775808"

text \<open>
  The id columns of the tables. Whatever a table holds is a value of the engine; the
  model does not bound the integers of a store, so an integer found in an id column
  counts as one the driver can pass.
\<close>

definition stored_ids :: "store \<Rightarrow> int list" where
  "stored_ids st =
     map s_id (students st) @ map c_id (courses st) @
     map e_student_id (enrollments st) @ map e_course_id (enrollments st)"

definition bindable :: "store \<Rightarrow> int \<Rightarrow> bool" where
  "bindable st i \<longleftrightarrow> fits_int64 i \<or> i \<in> set (stored_ids st)"

text \<open>
  The id of a new row: one more than the largest id of the table, 1 in an empty
  table. The id of a deleted last row is therefore given again. (When the largest id
  is the largest 64-bit value the engine looks for an unused id at random; the
  theorems about insertion leave such tables out.)
\<close>

definition next_id :: "int list \<Rightarrow> int" where
  "next_id ids = (case ids of [] \<Rightarrow> 1 | i # rest \<Rightarrow> fold max rest i + 1)"

text \<open>\<^verbatim>\<open>session.get(Model, id)\<close>: the row with that primary key, or \<^verbatim>\<open>None\<close>.\<close>

definition get_student :: "store \<Rightarrow> int \<Rightarrow> Student option" where
  "get_student st i = find (\<lambda>s. s_id s = i) (students st)"

definition get_course :: "store \<Rightarrow> int \<Rightarrow> Course option" where
  "get_course st i = find (\<lambda>c. c_id c = i) (courses st)"

definition get_enrollment :: "store \<Rightarrow> int \<Rightarrow> Enrollment option" where
  "get_enrollment st i = find (\<lambda>e. e_id e = i) (enrollments st)"

text \<open>\<^verbatim>\<open>select(Student).where(Student.email == email)\<close>, \<^verbatim>\<open>.first()\<close>.\<close>

definition find_student_by_email :: "store \<Rightarrow> string \<Rightarrow> Student option" where
  "find_student_by_email st email = find (\<lambda>s. s_email s = email) (students st)"

text \<open>\<^verbatim>\<open>select(Enrollment).where(student_id == .., course_id == ..)\<close>, \<^verbatim>\<open>.first()\<close>.\<close>

definition find_enrollment_by_pair :: "store \<Rightarrow> int \<Rightarrow> int \<Rightarrow> Enrollment option" where
  "find_enrollment_by_pair st sid cid =
     find (\<lambda>e. e_student_id e = sid \<and> e_course_id e = cid) (enrollments st)"

text \<open>
  \<^verbatim>\<open>select(Model).offset(skip).limit(limit)\<close> over a table in row order, for two
  numbers the driver can pass (the list handlers check that): a negative offset skips
  nothing and a negative limit does not limit.
\<close>

definition offset_limit :: "int \<Rightarrow> int \<Rightarrow> 'a list \<Rightarrow> 'a list" where
  "offset_limit skip limit rows =
     (let rest = drop (nat skip) rows
      in if limit < 0 then rest else take (nat limit) rest)"

text \<open>
  \<^verbatim>\<open>session.add(row); session.commit(); session.refresh(row)\<close> for a new row. The
  first argument is an exception the commit raises for a reason outside the request
  (a concurrent writer, a failing engine); \<open>None\<close> when there is none. The row comes
  back with the id the store assigned. \<^verbatim>\<open>created_at\<close> and \<^verbatim>\<open>updated_at\<close> have
  a default factory each, so a new student or course carries two readings of the
  clock, \<open>now\<close> and \<open>now2\<close>.
\<close>

definition insert_student ::
  "db_exception option \<Rightarrow> datetime \<Rightarrow> datetime \<Rightarrow> StudentCreate \<Rightarrow> store
     \<Rightarrow> db_exception + Student \<times> store" where
  "insert_student fault now now2 student st =
     (case fault of
        Some e \<Rightarrow> Inl e
      | None \<Rightarrow>
          if find_student_by_email st (sc_email student) \<noteq> None then Inl IntegrityError
          else
            let row = \<lparr>s_id = next_id (map s_id (students st)), s_name = sc_name student,
                       s_email = sc_email student, s_age = sc_age student,
                       s_created_at = now, s_updated_at = now2\<rparr>
            in Inr (row, st\<lparr>students := students st @ [row]\<rparr>))"

definition insert_course ::
  "db_exception option \<Rightarrow> datetime \<Rightarrow> datetime \<Rightarrow> CourseCreate \<Rightarrow> store
     \<Rightarrow> db_exception + Course \<times> store" where
  "insert_course fault now now2 course st =
     (case fault of
        Some e \<Rightarrow> Inl e
      | None \<Rightarrow>
          let row = \<lparr>c_id = next_id (map c_id (courses st)), c_title = cc_title course,
                     c_description = cc_description course, c_credits = cc_credits course,
                     c_instructor = cc_instructor course,
                     c_created_at = now, c_updated_at = now2\<rparr>
          in Inr (row, st\<lparr>courses := courses st @ [row]\<rparr>))"

definition insert_enrollment ::
  "db_exception option \<Rightarrow> datetime \<Rightarrow> EnrollmentCreate \<Rightarrow> store \<Rightarrow> db_exception + Enrollment \<times> store" where
  "insert_enrollment fault now enrollment st =
     (case fault of
        Some e \<Rightarrow> Inl e
      | None \<Rightarrow>
          let row = \<lparr>e_id = next_id (map e_id (enrollments st)),
                     e_student_id = ec_student_id enrollment,
                     e_course_id = ec_course_id enrollment, e_grade = ec_grade enrollment,
                     e_enrollment_date = now\<rparr>
          in Inr (row, st\<lparr>enrollments := enrollments st @ [row]\<rparr>))"

text \<open>
  The attribute of the loaded row after the \<^verbatim>\<open>setattr\<close> loop over the dumped patch:
  the stored value when the field is unset, the supplied value (possibly
  \<^verbatim>\<open>None\<close>) otherwise.
\<close>

definition set_attr :: "'a field \<Rightarrow> 'a \<Rightarrow> 'a option" where
  "set_attr f current = (case f of Unset \<Rightarrow> Some current | Supplied v \<Rightarrow> v)"

text \<open>
  \<^verbatim>\<open>session.add(row); session.commit(); session.refresh(row)\<close> for a loaded row whose
  attributes were reassigned: the columns of the row with that primary key are
  rewritten. A \<^verbatim>\<open>None\<close> in a non-optional column and a changed email that
  another student holds violate the table's constraints.
\<close>

definition commit_student ::
  "db_exception option \<Rightarrow> Student \<Rightarrow> string option \<Rightarrow> string option \<Rightarrow> int option \<Rightarrow> datetime
     \<Rightarrow> store \<Rightarrow> db_exception + Student \<times> store" where
  "commit_student fault db_student name email age updated st =
     (case fault of
        Some e \<Rightarrow> Inl e
      | None \<Rightarrow>
          (case (name, email, age) of
             (Some n, Some m, Some a) \<Rightarrow>
               if m \<noteq> s_email db_student \<and> find_student_by_email st m \<noteq> None
               then Inl IntegrityError
               else
                 let upd = (\<lambda>s. s\<lparr>s_name := n, s_email := m, s_age := a,
                                     s_updated_at := updated\<rparr>)
                 in Inr (upd db_student, st\<lparr>students :=
                      map (\<lambda>s. if s_id s = s_id db_student then upd s else s) (students st)\<rparr>)
           | _ \<Rightarrow> Inl IntegrityError))"

definition commit_course ::
  "db_exception option \<Rightarrow> Course \<Rightarrow> string option \<Rightarrow> string option \<Rightarrow> int option \<Rightarrow> string option
     \<Rightarrow> datetime \<Rightarrow> store \<Rightarrow> db_exception + Course \<times> store" where
  "commit_course fault db_course title description credits instructor updated st =
     (case fault of
        Some e \<Rightarrow> Inl e
      | None \<Rightarrow>
          (case (title, credits, instructor) of
             (Some t, Some k, Some i) \<Rightarrow>
               let upd = (\<lambda>c. c\<lparr>c_title := t, c_description := description, c_credits := k,
                                   c_instructor := i, c_updated_at := updated\<rparr>)
               in Inr (upd db_course, st\<lparr>courses :=
                    map (\<lambda>c. if c_id c = c_id db_course then upd c else c) (courses st)\<rparr>)
           | _ \<Rightarrow> Inl IntegrityError))"

definition commit_enrollment ::
  "db_exception option \<Rightarrow> Enrollment \<Rightarrow> string option
     \<Rightarrow> store \<Rightarrow> db_exception + Enrollment \<times> store" where
  "commit_enrollment fault db_enrollment grade st =
     (case fault of
        Some e \<Rightarrow> Inl e
      | None \<Rightarrow>
          let upd = (\<lambda>e. e\<lparr>e_grade := grade\<rparr>)
          in Inr (upd db_enrollment, st\<lparr>enrollments :=
               map (\<lambda>e. if e_id e = e_id db_enrollment then upd e else e) (enrollments st)\<rparr>))"

text \<open>\<^verbatim>\<open>session.delete(row); session.commit()\<close>.\<close>

definition remove_student :: "db_exception option \<Rightarrow> int \<Rightarrow> store \<Rightarrow> db_exception + store" where
  "remove_student fault i st =
     (case fault of
        Some e \<Rightarrow> Inl e
      | None \<Rightarrow> Inr (st\<lparr>students := filter (\<lambda>s. s_id s \<noteq> i) (students st)\<rparr>))"

definition remove_course :: "db_exception option \<Rightarrow> int \<Rightarrow> store \<Rightarrow> db_exception + store" where
  "remove_course fault i st =
     (case fault of
        Some e \<Rightarrow> Inl e
      | None \<Rightarrow> Inr (st\<lparr>courses := filter (\<lambda>c. c_id c \<noteq> i) (courses st)\<rparr>))"

definition remove_enrollment :: "db_exception option \<Rightarrow> int \<Rightarrow> store \<Rightarrow> db_exception + store" where
  "remove_enrollment fault i st =
     (case fault of
        Some e \<Rightarrow> Inl e
      | None \<Rightarrow> Inr (st\<lparr>enrollments := filter (\<lambda>e. e_id e \<noteq> i) (enrollments st)\<rparr>))"

section \<open>Request handlers\<close>

text \<open>
  Each handler of \<^verbatim>\<open>main.py\<close> is one \<^verbatim>\<open>try\<close> block: the precondition
  checks raise an \<^verbatim>\<open>HTTPException\<close>, which the first \<^verbatim>\<open>except\<close> clause
  re-raises; an exception of the commit is rolled back (the store stays as it was)
  and translated by the remaining clauses.
\<close>

subsection \<open>Students\<close>

definition create_student ::
  "db_exception option \<Rightarrow> datetime \<Rightarrow> datetime \<Rightarrow> StudentCreate \<Rightarrow> store
     \<Rightarrow> Student response \<times> store" where
  "create_student fault now now2 student st =
     (case find_student_by_email st (sc_email student) of
        Some existing_student \<Rightarrow> (HTTPException 400 ''Email already registered'', st)
      | None \<Rightarrow>
          (case insert_student fault now now2 student st of
             Inr (db_student, st') \<Rightarrow> (Response 201 db_student, st')
           | Inl IntegrityError \<Rightarrow>
               (HTTPException 400 ''Failed to create student. Email may already exist.'', st)
           | Inl OtherException \<Rightarrow>
               (HTTPException 500 ''An error occurred while creating the student'', st)))"

text \<open>The query of a list handler raises when \<open>skip\<close> or \<open>limit\<close> cannot be passed to
  the engine; the handler answers any exception with 500.\<close>

definition read_students :: "int \<Rightarrow> int \<Rightarrow> store \<Rightarrow> Student list response" where
  "read_students skip limit st =
     (if fits_int64 skip \<and> fits_int64 limit
      then Response 200 (offset_limit skip limit (students st))
      else HTTPException 500 ''An error occurred while fetching students'')"

definition read_student :: "int \<Rightarrow> store \<Rightarrow> Student response" where
  "read_student student_id st =
     (case get_student st student_id of
        None \<Rightarrow> HTTPException 404 ''Student not found''
      | Some student \<Rightarrow> Response 200 student)"

text \<open>The value of an attribute of the parsed patch: the default \<^verbatim>\<open>None\<close> when the
  field is unset.\<close>

definition attr :: "'a field \<Rightarrow> 'a option" where
  "attr f = (case f of Unset \<Rightarrow> None | Supplied v \<Rightarrow> v)"

text \<open>\<^verbatim>\<open>student_update.email and student_update.email != db_student.email\<close>, followed
  by the lookup of that email: the conflict found before the update.\<close>

definition email_conflict :: "StudentUpdate \<Rightarrow> Student \<Rightarrow> store \<Rightarrow> bool" where
  "email_conflict student_update db_student st =
     (case attr (su_email student_update) of
        None \<Rightarrow> False
      | Some m \<Rightarrow> m \<noteq> [] \<and> m \<noteq> s_email db_student \<and> find_student_by_email st m \<noteq> None)"

definition update_student ::
  "db_exception option \<Rightarrow> datetime \<Rightarrow> int \<Rightarrow> StudentUpdate \<Rightarrow> store \<Rightarrow> Student response \<times> store" where
  "update_student fault now student_id student_update st =
     (case get_student st student_id of
        None \<Rightarrow> (HTTPException 404 ''Student not found'', st)
      | Some db_student \<Rightarrow>
          if email_conflict student_update db_student st
          then (HTTPException 400 ''Email already registered'', st)
          else
            (case commit_student fault db_student
                    (set_attr (su_name student_update) (s_name db_student))
                    (set_attr (su_email student_update) (s_email db_student))
                    (set_attr (su_age student_update) (s_age db_student)) now st of
               Inr (row, st') \<Rightarrow> (Response 200 row, st')
             | Inl IntegrityError \<Rightarrow>
                 (HTTPException 400 ''Failed to update student. Email may already exist.'', st)
             | Inl OtherException \<Rightarrow>
                 (HTTPException 500 ''An error occurred while updating the student'', st)))"

definition delete_student :: "db_exception option \<Rightarrow> int \<Rightarrow> store \<Rightarrow> unit response \<times> store" where
  "delete_student fault student_id st =
     (case get_student st student_id of
        None \<Rightarrow> (HTTPException 404 ''Student not found'', st)
      | Some student \<Rightarrow>
          (case remove_student fault student_id st of
             Inr st' \<Rightarrow> (Response 204 (), st')
           | Inl e \<Rightarrow> (HTTPException 500 ''An error occurred while deleting the student'', st)))"

subsection \<open>Courses\<close>

definition create_course ::
  "db_exception option \<Rightarrow> datetime \<Rightarrow> datetime \<Rightarrow> CourseCreate \<Rightarrow> store
     \<Rightarrow> Course response \<times> store" where
  "create_course fault now now2 course st =
     (case insert_course fault now now2 course st of
        Inr (db_course, st') \<Rightarrow> (Response 201 db_course, st')
      | Inl e \<Rightarrow> (HTTPException 500 ''An error occurred while creating the course'', st))"

definition read_courses :: "int \<Rightarrow> int \<Rightarrow> store \<Rightarrow> Course list response" where
  "read_courses skip limit st =
     (if fits_int64 skip \<and> fits_int64 limit
      then Response 200 (offset_limit skip limit (courses st))
      else HTTPException 500 ''An error occurred while fetching courses'')"

definition read_course :: "int \<Rightarrow> store \<Rightarrow> Course response" where
  "read_course course_id st =
     (case get_course st course_id of
        None \<Rightarrow> HTTPException 404 ''Course not found''
      | Some course \<Rightarrow> Response 200 course)"

definition update_course ::
  "db_exception option \<Rightarrow> datetime \<Rightarrow> int \<Rightarrow> CourseUpdate \<Rightarrow> store \<Rightarrow> Course response \<times> store" where
  "update_course fault now course_id course_update st =
     (case get_course st course_id of
        None \<Rightarrow> (HTTPException 404 ''Course not found'', st)
      | Some db_course \<Rightarrow>
          (case commit_course fault db_course
                  (set_attr (cu_title course_update) (c_title db_course))
                  (case cu_description course_update of
                     Unset \<Rightarrow> c_description db_course | Supplied v \<Rightarrow> v)
                  (set_attr (cu_credits course_update) (c_credits db_course))
                  (set_attr (cu_instructor course_update) (c_instructor db_course)) now st of
             Inr (row, st') \<Rightarrow> (Response 200 row, st')
           | Inl e \<Rightarrow> (HTTPException 500 ''An error occurred while updating the course'', st)))"

definition delete_course :: "db_exception option \<Rightarrow> int \<Rightarrow> store \<Rightarrow> unit response \<times> store" where
  "delete_course fault course_id st =
     (case get_course st course_id of
        None \<Rightarrow> (HTTPException 404 ''Course not found'', st)
      | Some course \<Rightarrow>
          (case remove_course fault course_id st of
             Inr st' \<Rightarrow> (Response 204 (), st')
           | Inl e \<Rightarrow> (HTTPException 500 ''An error occurred while deleting the course'', st)))"

subsection \<open>Enrollments\<close>

text \<open>
  The two ids of the body are any integers. \<^verbatim>\<open>session.get\<close> with an id the driver
  cannot pass raises inside the \<^verbatim>\<open>try\<close>, and \<^verbatim>\<open>except Exception\<close> answers
  500; the student is looked up before the course.
\<close>

definition create_enrollment ::
  "db_exception option \<Rightarrow> datetime \<Rightarrow> EnrollmentCreate \<Rightarrow> store \<Rightarrow> Enrollment response \<times> store" where
  "create_enrollment fault now enrollment st =
     (if \<not> bindable st (ec_student_id enrollment)
      then (HTTPException 500 ''An error occurred while creating the enrollment'', st)
      else
       (case get_student st (ec_student_id enrollment) of
          None \<Rightarrow> (HTTPException 404 ''Student not found'', st)
        | Some student \<Rightarrow>
            if \<not> bindable st (ec_course_id enrollment)
            then (HTTPException 500 ''An error occurred while creating the enrollment'', st)
            else
             (case get_course st (ec_course_id enrollment) of
                None \<Rightarrow> (HTTPException 404 ''Course not found'', st)
              | Some course \<Rightarrow>
                  (case find_enrollment_by_pair st (ec_student_id enrollment)
                          (ec_course_id enrollment) of
                     Some existing_enrollment \<Rightarrow>
                       (HTTPException 400 ''Student already enrolled in this course'', st)
                   | None \<Rightarrow>
                       (case insert_enrollment fault now enrollment st of
                          Inr (db_enrollment, st') \<Rightarrow> (Response 201 db_enrollment, st')
                        | Inl e \<Rightarrow>
                            (HTTPException 500
                               ''An error occurred while creating the enrollment'', st))))))"

definition read_enrollments :: "int \<Rightarrow> int \<Rightarrow> store \<Rightarrow> Enrollment list response" where
  "read_enrollments skip limit st =
     (if fits_int64 skip \<and> fits_int64 limit
      then Response 200 (offset_limit skip limit (enrollments st))
      else HTTPException 500 ''An error occurred while fetching enrollments'')"

definition read_enrollment :: "int \<Rightarrow> store \<Rightarrow> Enrollment response" where
  "read_enrollment enrollment_id st =
     (case get_enrollment st enrollment_id of
        None \<Rightarrow> HTTPException 404 ''Enrollment not found''
      | Some enrollment \<Rightarrow> Response 200 enrollment)"

definition update_enrollment ::
  "db_exception option \<Rightarrow> int \<Rightarrow> EnrollmentUpdate \<Rightarrow> store \<Rightarrow> Enrollment response \<times> store" where
  "update_enrollment fault enrollment_id enrollment_update st =
     (case get_enrollment st enrollment_id of
        None \<Rightarrow> (HTTPException 404 ''Enrollment not found'', st)
      | Some db_enrollment \<Rightarrow>
          (case commit_enrollment fault db_enrollment
                  (case eu_grade enrollment_update of
                     Unset \<Rightarrow> e_grade db_enrollment | Supplied v \<Rightarrow> v) st of
             Inr (row, st') \<Rightarrow> (Response 200 row, st')
           | Inl e \<Rightarrow> (HTTPException 500 ''An error occurred while updating the enrollment'', st)))"

definition delete_enrollment :: "db_exception option \<Rightarrow> int \<Rightarrow> store \<Rightarrow> unit response \<times> store" where
  "delete_enrollment fault enrollment_id st =
     (case get_enrollment st enrollment_id of
        None \<Rightarrow> (HTTPException 404 ''Enrollment not found'', st)
      | Some enrollment \<Rightarrow>
          (case remove_enrollment fault enrollment_id st of
             Inr st' \<Rightarrow> (Response 204 (), st')
           | Inl e \<Rightarrow> (HTTPException 500 ''An error occurred while deleting the enrollment'', st)))"

section \<open>Sequences of requests\<close>

text \<open>
  The mutating requests of the API. The read handlers return no store, so a sequence
  of requests changes the store only through these nine.
\<close>

datatype request =
    CreateStudent StudentCreate
  | UpdateStudent int StudentUpdate
  | DeleteStudent int
  | CreateCourse CourseCreate
  | UpdateCourse int CourseUpdate
  | DeleteCourse int
  | CreateEnrollment EnrollmentCreate
  | UpdateEnrollment int EnrollmentUpdate
  | DeleteEnrollment int

fun handle ::
  "db_exception option \<Rightarrow> datetime \<Rightarrow> datetime \<Rightarrow> request \<Rightarrow> store \<Rightarrow> store" where
  "handle fault now now2 (CreateStudent b) st = snd (create_student fault now now2 b st)"
| "handle fault now now2 (UpdateStudent i b) st = snd (update_student fault now i b st)"
| "handle fault now now2 (DeleteStudent i) st = snd (delete_student fault i st)"
| "handle fault now now2 (CreateCourse b) st = snd (create_course fault now now2 b st)"
| "handle fault now now2 (UpdateCourse i b) st = snd (update_course fault now i b st)"
| "handle fault now now2 (DeleteCourse i) st = snd (delete_course fault i st)"
| "handle fault now now2 (CreateEnrollment b) st = snd (create_enrollment fault now b st)"
| "handle fault now now2 (UpdateEnrollment i b) st = snd (update_enrollment fault i b st)"
| "handle fault now now2 (DeleteEnrollment i) st = snd (delete_enrollment fault i st)"

text \<open>A run serves the requests one after the other, each with the exception its commit
  meets (if any) and the readings of its clock.\<close>

fun run ::
  "(db_exception option \<times> datetime \<times> datetime \<times> request) list \<Rightarrow> store \<Rightarrow> store" where
  "run [] st = st"
| "run ((fault, now, now2, r) # rs) st = run rs (handle fault now now2 r st)"

section \<open>Validation layer\<close>

text \<open>
  FastAPI parses the request body against the schema of the handler's parameter and
  calls the handler only with a value that satisfies it; a body that does not is
  answered with 422 and the handler does not run. The bounds are those of
  \<^verbatim>\<open>schemas.py\<close>. \<^verbatim>\<open>EmailStr\<close> belongs to pydantic and is a parameter here:
  \<open>email_str m\<close> is \<open>None\<close> for a string that is not an email address and the
  accepted address otherwise.
\<close>

definition str_ok :: "nat \<Rightarrow> nat \<Rightarrow> string \<Rightarrow> bool" where
  "str_ok min_length max_length s \<longleftrightarrow> min_length \<le> length s \<and> length s \<le> max_length"

definition int_ok :: "int \<Rightarrow> int \<Rightarrow> int \<Rightarrow> bool" where
  "int_ok ge le n \<longleftrightarrow> ge \<le> n \<and> n \<le> le"

definition opt_ok :: "('a \<Rightarrow> bool) \<Rightarrow> 'a option \<Rightarrow> bool" where
  "opt_ok P v = (case v of None \<Rightarrow> True | Some x \<Rightarrow> P x)"

definition field_ok :: "('a \<Rightarrow> bool) \<Rightarrow> 'a field \<Rightarrow> bool" where
  "field_ok P f = (case f of Unset \<Rightarrow> True | Supplied v \<Rightarrow> opt_ok P v)"

definition validate_StudentCreate ::
  "(string \<Rightarrow> string option) \<Rightarrow> StudentCreate \<Rightarrow> StudentCreate option" where
  "validate_StudentCreate email_str body =
     (if str_ok 1 100 (sc_name body) \<and> int_ok 1 150 (sc_age body)
      then (case email_str (sc_email body) of
              None \<Rightarrow> None
            | Some m \<Rightarrow> Some (body\<lparr>sc_email := m\<rparr>))
      else None)"

definition validate_StudentUpdate ::
  "(string \<Rightarrow> string option) \<Rightarrow> StudentUpdate \<Rightarrow> StudentUpdate option" where
  "validate_StudentUpdate email_str body =
     (if field_ok (str_ok 1 100) (su_name body) \<and> field_ok (int_ok 1 150) (su_age body)
      then (case su_email body of
              Supplied (Some m) \<Rightarrow>
                (case email_str m of
                   None \<Rightarrow> None
                 | Some m' \<Rightarrow> Some (body\<lparr>su_email := Supplied (Some m')\<rparr>))
            | _ \<Rightarrow> Some body)
      else None)"

definition validate_CourseCreate :: "CourseCreate \<Rightarrow> CourseCreate option" where
  "validate_CourseCreate body =
     (if str_ok 1 200 (cc_title body) \<and> opt_ok (str_ok 0 1000) (cc_description body) \<and>
         int_ok 1 10 (cc_credits body) \<and> str_ok 1 100 (cc_instructor body)
      then Some body else None)"

definition validate_CourseUpdate :: "CourseUpdate \<Rightarrow> CourseUpdate option" where
  "validate_CourseUpdate body =
     (if field_ok (str_ok 1 200) (cu_title body) \<and>
         field_ok (str_ok 0 1000) (cu_description body) \<and>
         field_ok (int_ok 1 10) (cu_credits body) \<and>
         field_ok (str_ok 1 100) (cu_instructor body)
      then Some body else None)"

definition validate_EnrollmentCreate :: "EnrollmentCreate \<Rightarrow> EnrollmentCreate option" where
  "validate_EnrollmentCreate body =
     (if opt_ok (str_ok 0 2) (ec_grade body) then Some body else None)"

definition validate_EnrollmentUpdate :: "EnrollmentUpdate \<Rightarrow> EnrollmentUpdate option" where
  "validate_EnrollmentUpdate body =
     (if field_ok (str_ok 0 2) (eu_grade body) then Some body else None)"

text \<open>The routes with a request body: validation, then the handler.\<close>

definition post_students ::
  "(string \<Rightarrow> string option) \<Rightarrow> db_exception option \<Rightarrow> datetime \<Rightarrow> datetime
     \<Rightarrow> StudentCreate \<Rightarrow> store \<Rightarrow> Student response \<times> store" where
  "post_students email_str fault now now2 body st =
     (case validate_StudentCreate email_str body of
        None \<Rightarrow> (RequestValidationError, st)
      | Some student \<Rightarrow> create_student fault now now2 student st)"

definition put_students ::
  "(string \<Rightarrow> string option) \<Rightarrow> db_exception option \<Rightarrow> datetime \<Rightarrow> int \<Rightarrow> StudentUpdate \<Rightarrow> store
     \<Rightarrow> Student response \<times> store" where
  "put_students email_str fault now student_id body st =
     (case validate_StudentUpdate email_str body of
        None \<Rightarrow> (RequestValidationError, st)
      | Some student_update \<Rightarrow> update_student fault now student_id student_update st)"

definition post_courses ::
  "db_exception option \<Rightarrow> datetime \<Rightarrow> datetime \<Rightarrow> CourseCreate \<Rightarrow> store
     \<Rightarrow> Course response \<times> store" where
  "post_courses fault now now2 body st =
     (case validate_CourseCreate body of
        None \<Rightarrow> (RequestValidationError, st)
      | Some course \<Rightarrow> create_course fault now now2 course st)"

definition put_courses ::
  "db_exception option \<Rightarrow> datetime \<Rightarrow> int \<Rightarrow> CourseUpdate \<Rightarrow> store \<Rightarrow> Course response \<times> store" where
  "put_courses fault now course_id body st =
     (case validate_CourseUpdate body of
        None \<Rightarrow> (RequestValidationError, st)
      | Some course_update \<Rightarrow> update_course fault now course_id course_update st)"

definition post_enrollments ::
  "db_exception option \<Rightarrow> datetime \<Rightarrow> EnrollmentCreate \<Rightarrow> store \<Rightarrow> Enrollment response \<times> store" where
  "post_enrollments fault now body st =
     (case validate_EnrollmentCreate body of
        None \<Rightarrow> (RequestValidationError, st)
      | Some enrollment \<Rightarrow> create_enrollment fault now enrollment st)"

definition put_enrollments ::
  "db_exception option \<Rightarrow> int \<Rightarrow> EnrollmentUpdate \<Rightarrow> store \<Rightarrow> Enrollment response \<times> store" where
  "put_enrollments fault enrollment_id body st =
     (case validate_EnrollmentUpdate body of
        None \<Rightarrow> (RequestValidationError, st)
      | Some enrollment_update \<Rightarrow> update_enrollment fault enrollment_id enrollment_update st)"

section \<open>Store constraints\<close>

text \<open>
  The constraints the tables declare: primary keys are unique, and no two students
  share an email.
\<close>

definition store_ok :: "store \<Rightarrow> bool" where
  "store_ok st \<longleftrightarrow>
     distinct (map s_id (students st)) \<and> distinct (map s_email (students st)) \<and>
     distinct (map c_id (courses st)) \<and>
     distinct (map e_id (enrollments st))"

text \<open>The (student, course) pairs of the enrollment table, in row order.\<close>

definition pairs :: "store \<Rightarrow> (int \<times> int) list" where
  "pairs st = map (\<lambda>e. (e_student_id e, e_course_id e)) (enrollments st)"

section \<open>Lookups\<close>

lemma get_student_None: "get_student st i = None \<longleftrightarrow> i \<notin> s_id ` set (students st)"
  by (auto simp: get_student_def find_None_iff)

lemma get_course_None: "get_course st i = None \<longleftrightarrow> i \<notin> c_id ` set (courses st)"
  by (auto simp: get_course_def find_None_iff)

lemma find_enrollment_by_pair_None:
  "find_enrollment_by_pair st sid cid = None \<longleftrightarrow>
     (sid, cid) \<notin> (\<lambda>e. (e_student_id e, e_course_id e)) ` set (enrollments st)"
  by (auto simp: find_enrollment_by_pair_def find_None_iff)

lemma find_student_by_email_None:
  "find_student_by_email st m = None \<longleftrightarrow> m \<notin> s_email ` set (students st)"
  by (auto simp: find_student_by_email_def find_None_iff)

lemma get_studentD: "get_student st i = Some s \<Longrightarrow> s \<in> set (students st) \<and> s_id s = i"
  by (auto simp: get_student_def find_Some_iff)

lemma get_courseD: "get_course st i = Some c \<Longrightarrow> c \<in> set (courses st) \<and> c_id c = i"
  by (auto simp: get_course_def find_Some_iff)

lemma get_enrollmentD: "get_enrollment st i = Some e \<Longrightarrow> e \<in> set (enrollments st) \<and> e_id e = i"
  by (auto simp: get_enrollment_def find_Some_iff)

section \<open>New ids\<close>

lemma next_id_greater: "i \<in> set ids \<Longrightarrow> i < next_id ids"
proof (cases ids)
  case Nil
  assume "i \<in> set ids"
  with Nil show ?thesis by simp
next
  case (Cons j rest)
  assume i: "i \<in> set ids"
  have "fold max rest j = Max (set (j # rest))"
    by (simp only: Max.set_eq_fold)
  moreover from i Cons have "i \<le> Max (set (j # rest))"
    by (intro Max_ge) simp_all
  ultimately show ?thesis
    using Cons by (simp add: next_id_def)
qed

lemma next_id_fresh: "next_id ids \<notin> set ids"
  using next_id_greater [of "next_id ids" ids] by auto

section \<open>The store constraints are invariant\<close>

lemma map_proj_update:
  "(\<And>x. f (upd x) = f x) \<Longrightarrow> map f (map (\<lambda>x. if P x then upd x else x) xs) = map f xs"
  by (induction xs) auto

lemma update_absent:
  "i \<notin> f ` set xs \<Longrightarrow> map (\<lambda>x. if f x = i then upd x else x) xs = xs"
  by (induction xs) auto

lemma distinct_email_update_fresh:
  assumes "distinct (map s_id xs)" and "distinct (map s_email xs)"
    and "m \<notin> s_email ` set xs" and "\<And>s. s_email (upd s) = m"
  shows "distinct (map s_email (map (\<lambda>s. if s_id s = i then upd s else s) xs))"
  using assms(1-3)
proof (induction xs)
  case Nil
  then show ?case by simp
next
  case (Cons x xs)
  define u where "u = (\<lambda>s. if s_id s = i then upd s else s)"
  show ?case
  proof (cases "s_id x = i")
    case True
    with Cons.prems have "i \<notin> s_id ` set xs" by auto
    then have "map (\<lambda>s. if s_id s = i then upd s else s) xs = xs" by (rule update_absent)
    with True Cons.prems assms(4) show ?thesis by auto
  next
    case False
    from Cons have ih: "distinct (map s_email (map u xs))"
      by (simp add: u_def)
    have "s_email ` set (map u xs) \<subseteq> insert m (s_email ` set xs)"
      using assms(4) by (auto simp: u_def)
    moreover from Cons.prems have "s_email x \<notin> insert m (s_email ` set xs)"
      by auto
    ultimately have "s_email x \<notin> s_email ` set (map u xs)"
      by blast
    moreover have "u x = x" using False by (simp add: u_def)
    ultimately have "distinct (map s_email (map u (x # xs)))"
      using ih by (auto simp: image_iff)
    then show ?thesis by (simp only: u_def)
  qed
qed

lemma distinct_email_update_same:
  assumes "distinct (map s_id xs)" and "db \<in> set xs" and "s_email (upd db) = s_email db"
  shows "map s_email (map (\<lambda>s. if s_id s = s_id db then upd s else s) xs) = map s_email xs"
  using assms
proof (induction xs)
  case Nil
  then show ?case by simp
next
  case (Cons x xs)
  then show ?case by (cases "x = db") (auto simp: update_absent)
qed

lemma commit_student_ok:
  assumes ok: "store_ok st" and db: "db \<in> set (students st)"
    and c: "commit_student fault db n m a t st = Inr (row, st')"
  shows "store_ok st'"
proof -
  from c obtain n' m' a' where nm: "n = Some n'" "m = Some m'" "a = Some a'" and f: "fault = None"
    by (auto simp: commit_student_def split: option.splits if_splits)
  define upd :: "Student \<Rightarrow> Student"
    where "upd = (\<lambda>s. s\<lparr>s_name := n', s_email := m', s_age := a', s_updated_at := t\<rparr>)"
  from c nm f have m: "m' = s_email db \<or> m' \<notin> s_email ` set (students st)"
    by (auto simp: commit_student_def find_student_by_email_None split: if_splits)
  from c nm f
  have st': "st' = st\<lparr>students := map (\<lambda>s. if s_id s = s_id db then upd s else s) (students st)\<rparr>"
    by (auto simp: commit_student_def Let_def upd_def split: if_splits)
  have "map s_id (map (\<lambda>s. if s_id s = s_id db then upd s else s) (students st)) = map s_id (students st)"
    by (rule map_proj_update) (simp add: upd_def)
  then have ids: "map s_id (students st') = map s_id (students st)"
    unfolding st' by simp
  from ok have dids: "distinct (map s_id (students st))" and dem: "distinct (map s_email (students st))"
    by (simp_all add: store_ok_def)
  have "distinct (map s_email (map (\<lambda>s. if s_id s = s_id db then upd s else s) (students st)))"
  proof (cases "m' = s_email db")
    case True
    then have "s_email (upd db) = s_email db" by (simp add: upd_def)
    with dids db have "map s_email (map (\<lambda>s. if s_id s = s_id db then upd s else s) (students st))
        = map s_email (students st)"
      by (rule distinct_email_update_same)
    with dem show ?thesis by (simp only:)
  next
    case False
    with m have "m' \<notin> s_email ` set (students st)" by simp
    with dids dem show ?thesis
      by (rule distinct_email_update_fresh) (simp add: upd_def)
  qed
  then have em: "distinct (map s_email (students st'))"
    unfolding st' by simp
  from dids have d: "distinct (map s_id (students st'))" by (simp only: ids)
  have rest: "courses st' = courses st" "enrollments st' = enrollments st"
    using st' by simp_all
  show ?thesis
    using ok d em rest by (simp add: store_ok_def)
qed

lemma commit_course_ok:
  assumes ok: "store_ok st"
    and c: "commit_course fault db ti d k i t st = Inr (row, st')"
  shows "store_ok st'"
proof -
  from c obtain ti' k' i' where some: "ti = Some ti'" "k = Some k'" "i = Some i'"
    and f: "fault = None"
    by (auto simp: commit_course_def split: option.splits)
  define upd :: "Course \<Rightarrow> Course"
    where "upd = (\<lambda>c. c\<lparr>c_title := ti', c_description := d, c_credits := k',
                          c_instructor := i', c_updated_at := t\<rparr>)"
  have id: "\<And>x. c_id (upd x) = c_id x" by (simp add: upd_def)
  from c some f
  have st': "st' = st\<lparr>courses := map (\<lambda>c. if c_id c = c_id db then upd c else c) (courses st)\<rparr>"
    by (auto simp: commit_course_def Let_def upd_def)
  have "map c_id (map (\<lambda>c. if c_id c = c_id db then upd c else c) (courses st)) = map c_id (courses st)"
    using id by (rule map_proj_update)
  then have ids: "map c_id (courses st') = map c_id (courses st)"
    unfolding st' by simp
  from ok have "distinct (map c_id (courses st))" by (simp add: store_ok_def)
  then have d: "distinct (map c_id (courses st'))" by (simp only: ids)
  have rest: "students st' = students st" "enrollments st' = enrollments st"
    using st' by simp_all
  show ?thesis using ok d rest by (simp add: store_ok_def)
qed

lemma commit_enrollment_ok:
  assumes ok: "store_ok st"
    and c: "commit_enrollment fault db g st = Inr (row, st')"
  shows "store_ok st'"
proof -
  define upd :: "Enrollment \<Rightarrow> Enrollment" where "upd = (\<lambda>e. e\<lparr>e_grade := g\<rparr>)"
  have id: "\<And>x. e_id (upd x) = e_id x" by (simp add: upd_def)
  from c
  have st': "st' = st\<lparr>enrollments := map (\<lambda>e. if e_id e = e_id db then upd e else e) (enrollments st)\<rparr>"
    by (auto simp: commit_enrollment_def Let_def upd_def split: option.splits)
  have "map e_id (map (\<lambda>e. if e_id e = e_id db then upd e else e) (enrollments st)) = map e_id (enrollments st)"
    using id by (rule map_proj_update)
  then have ids: "map e_id (enrollments st') = map e_id (enrollments st)"
    unfolding st' by simp
  from ok have "distinct (map e_id (enrollments st))" by (simp add: store_ok_def)
  then have d: "distinct (map e_id (enrollments st'))" by (simp only: ids)
  have rest: "students st' = students st" "courses st' = courses st"
    using st' by simp_all
  show ?thesis using ok d rest by (simp add: store_ok_def)
qed

lemma create_student_ok:
  "store_ok st \<Longrightarrow> store_ok (snd (create_student fault now now2 b st))"
  using next_id_fresh [of "map s_id (students st)"]
  by (cases fault)
     (auto simp: create_student_def insert_student_def store_ok_def Let_def
         find_student_by_email_None
       split: option.splits sum.splits db_exception.splits)

lemma update_student_ok: "store_ok st \<Longrightarrow> store_ok (snd (update_student fault now i b st))"
  by (auto simp: update_student_def split: option.splits sum.splits db_exception.splits
       dest: get_studentD commit_student_ok)

lemma delete_student_ok: "store_ok st \<Longrightarrow> store_ok (snd (delete_student fault i st))"
  by (cases fault)
     (auto simp: delete_student_def remove_student_def store_ok_def distinct_map_filter
       split: option.splits)

lemma create_course_ok:
  "store_ok st \<Longrightarrow> store_ok (snd (create_course fault now now2 b st))"
  using next_id_fresh [of "map c_id (courses st)"]
  by (cases fault) (auto simp: create_course_def insert_course_def store_ok_def Let_def)

lemma update_course_ok: "store_ok st \<Longrightarrow> store_ok (snd (update_course fault now i b st))"
  by (auto simp: update_course_def split: option.splits sum.splits
       dest: commit_course_ok)

lemma delete_course_ok: "store_ok st \<Longrightarrow> store_ok (snd (delete_course fault i st))"
  by (cases fault)
     (auto simp: delete_course_def remove_course_def store_ok_def distinct_map_filter
       split: option.splits)

lemma create_enrollment_ok: "store_ok st \<Longrightarrow> store_ok (snd (create_enrollment fault now b st))"
  using next_id_fresh [of "map e_id (enrollments st)"]
  by (cases fault)
     (auto simp: create_enrollment_def insert_enrollment_def store_ok_def Let_def
       split: option.splits)

lemma update_enrollment_ok: "store_ok st \<Longrightarrow> store_ok (snd (update_enrollment fault i b st))"
  by (auto simp: update_enrollment_def split: option.splits sum.splits
       dest: commit_enrollment_ok)

lemma delete_enrollment_ok: "store_ok st \<Longrightarrow> store_ok (snd (delete_enrollment fault i st))"
  by (cases fault)
     (auto simp: delete_enrollment_def remove_enrollment_def store_ok_def distinct_map_filter
       split: option.splits)

lemma handle_ok: "store_ok st \<Longrightarrow> store_ok (handle fault now now2 r st)"
  by (cases r)
     (simp_all add: create_student_ok update_student_ok delete_student_ok
        create_course_ok update_course_ok delete_course_ok
        create_enrollment_ok update_enrollment_ok delete_enrollment_ok)

lemma run_ok: "store_ok st \<Longrightarrow> store_ok (run rs st)"
  by (induction rs arbitrary: st) (auto simp: handle_ok)

lemma empty_store_ok: "store_ok empty_store"
  by (simp add: store_ok_def empty_store_def)

section \<open>Enrollment creation\<close>

lemma fits_bindable: "fits_int64 i \<Longrightarrow> bindable st i"
  by (simp add: bindable_def)

lemma create_enrollment_no_student:
  assumes "fits_int64 (ec_student_id b)" and "ec_student_id b \<notin> s_id ` set (students st)"
  shows "create_enrollment fault now b st = (HTTPException 404 ''Student not found'', st)"
proof -
  from assms(2) have "get_student st (ec_student_id b) = None"
    by (simp add: get_student_None)
  with assms(1) show ?thesis
    by (simp add: create_enrollment_def fits_bindable)
qed

lemma create_enrollment_bound:
  assumes s: "fits_int64 (ec_student_id b)" and c: "fits_int64 (ec_course_id b)"
  shows "create_enrollment fault now b st =
     (if ec_student_id b \<notin> s_id ` set (students st)
        then (HTTPException 404 ''Student not found'', st)
      else if ec_course_id b \<notin> c_id ` set (courses st)
        then (HTTPException 404 ''Course not found'', st)
      else if (ec_student_id b, ec_course_id b) \<in> set (pairs st)
        then (HTTPException 400 ''Student already enrolled in this course'', st)
      else (case fault of
              None \<Rightarrow>
                (Response 201
                   \<lparr>e_id = next_id (map e_id (enrollments st)),
                    e_student_id = ec_student_id b, e_course_id = ec_course_id b,
                    e_grade = ec_grade b, e_enrollment_date = now\<rparr>,
                 st\<lparr>enrollments := enrollments st @
                       [\<lparr>e_id = next_id (map e_id (enrollments st)),
                         e_student_id = ec_student_id b, e_course_id = ec_course_id b,
                         e_grade = ec_grade b, e_enrollment_date = now\<rparr>]\<rparr>)
            | Some e \<Rightarrow> (HTTPException 500 ''An error occurred while creating the enrollment'', st)))"
proof -
  have gs: "(get_student st (ec_student_id b) = None) = (ec_student_id b \<notin> s_id ` set (students st))"
    by (rule get_student_None)
  have gc: "(get_course st (ec_course_id b) = None) = (ec_course_id b \<notin> c_id ` set (courses st))"
    by (rule get_course_None)
  have p: "(find_enrollment_by_pair st (ec_student_id b) (ec_course_id b) = None) =
      ((ec_student_id b, ec_course_id b) \<notin> set (pairs st))"
    by (simp add: find_enrollment_by_pair_None pairs_def)
  from s c have bs: "bindable st (ec_student_id b)" and bc: "bindable st (ec_course_id b)"
    by (simp_all add: fits_bindable)
  show ?thesis
    using gs gc p bs bc
    by (cases "get_student st (ec_student_id b)"; cases "get_course st (ec_course_id b)";
        cases "find_enrollment_by_pair st (ec_student_id b) (ec_course_id b)"; cases fault)
       (simp_all add: create_enrollment_def insert_enrollment_def Let_def)
qed

text \<open>
  Claim C1. For ids that the engine can hold (signed 64-bit integers; with any other
  id the lookup raises and the request is answered with 500), POST /enrollments/
  checks its preconditions in a fixed order and stops at the first that fails: an
  unknown student id gives 404 "Student not found" whatever the course id is;
  otherwise an unknown course id gives 404 "Course not found"; otherwise an
  enrollment with the same (student, course) pair gives 400 "Student already
  enrolled in this course"; in these three cases the store is left as it was.
  Otherwise the enrollment is appended with a new id and with its enrollment date
  set to the current time, and returned with 201 (when the commit raises, the request
  is rolled back and answered with 500).
\<close>

theorem create_enrollment_chain:
  "(fits_int64 (ec_student_id b) \<and> ec_student_id b \<notin> s_id ` set (students st) \<longrightarrow>
      create_enrollment fault now b st = (HTTPException 404 ''Student not found'', st)) \<and>
   (fits_int64 (ec_student_id b) \<and> fits_int64 (ec_course_id b) \<and>
    (\<forall>e \<in> set (enrollments st). e_id e < 9223372036854775807) \<longrightarrow>
      create_enrollment fault now b st =
        (if ec_student_id b \<notin> s_id ` set (students st)
           then (HTTPException 404 ''Student not found'', st)
         else if ec_course_id b \<notin> c_id ` set (courses st)
           then (HTTPException 404 ''Course not found'', st)
         else if (ec_student_id b, ec_course_id b) \<in> set (pairs st)
           then (HTTPException 400 ''Student already enrolled in this course'', st)
         else (case fault of
                 None \<Rightarrow>
                   (Response 201
                      \<lparr>e_id = next_id (map e_id (enrollments st)),
                       e_student_id = ec_student_id b, e_course_id = ec_course_id b,
                       e_grade = ec_grade b, e_enrollment_date = now\<rparr>,
                    st\<lparr>enrollments := enrollments st @
                          [\<lparr>e_id = next_id (map e_id (enrollments st)),
                            e_student_id = ec_student_id b, e_course_id = ec_course_id b,
                            e_grade = ec_grade b, e_enrollment_date = now\<rparr>]\<rparr>)
               | Some e \<Rightarrow>
                   (HTTPException 500 ''An error occurred while creating the enrollment'',
                    st))) \<and>
      next_id (map e_id (enrollments st)) \<notin> e_id ` set (enrollments st))"
  using create_enrollment_no_student [of b st fault now]
    create_enrollment_bound [of b fault now st]
    next_id_fresh [of "map e_id (enrollments st)"]
  by simp

theorem create_enrollment_chain_witness:
  "create_enrollment None 7 \<lparr>ec_student_id = 9, ec_course_id = 9, ec_grade = None\<rparr>
     \<lparr>students = [\<lparr>s_id = 1, s_name = ''John Doe'', s_email = ''john@example.com'', s_age = 20,
                    s_created_at = 0, s_updated_at = 0\<rparr>],
      courses = [\<lparr>c_id = 1, c_title = ''Mathematics'', c_description = None, c_credits = 3,
                   c_instructor = ''Dr. Smith'', c_created_at = 0, c_updated_at = 0\<rparr>],
      enrollments = []\<rparr>
   = (HTTPException 404 ''Student not found'',
     \<lparr>students = [\<lparr>s_id = 1, s_name = ''John Doe'', s_email = ''john@example.com'', s_age = 20,
                    s_created_at = 0, s_updated_at = 0\<rparr>],
      courses = [\<lparr>c_id = 1, c_title = ''Mathematics'', c_description = None, c_credits = 3,
                   c_instructor = ''Dr. Smith'', c_created_at = 0, c_updated_at = 0\<rparr>],
      enrollments = []\<rparr>)
   \<and>
   fst (create_enrollment None 7 \<lparr>ec_student_id = 1, ec_course_id = 9, ec_grade = None\<rparr>
     \<lparr>students = [\<lparr>s_id = 1, s_name = ''John Doe'', s_email = ''john@example.com'', s_age = 20,
                    s_created_at = 0, s_updated_at = 0\<rparr>],
      courses = [\<lparr>c_id = 1, c_title = ''Mathematics'', c_description = None, c_credits = 3,
                   c_instructor = ''Dr. Smith'', c_created_at = 0, c_updated_at = 0\<rparr>],
      enrollments = []\<rparr>)
   = HTTPException 404 ''Course not found''
   \<and>
   create_enrollment None 7 \<lparr>ec_student_id = 1, ec_course_id = 1, ec_grade = Some ''A''\<rparr>
     \<lparr>students = [\<lparr>s_id = 1, s_name = ''John Doe'', s_email = ''john@example.com'', s_age = 20,
                    s_created_at = 0, s_updated_at = 0\<rparr>],
      courses = [\<lparr>c_id = 1, c_title = ''Mathematics'', c_description = None, c_credits = 3,
                   c_instructor = ''Dr. Smith'', c_created_at = 0, c_updated_at = 0\<rparr>],
      enrollments = []\<rparr>
   = (Response 201 \<lparr>e_id = 1, e_student_id = 1, e_course_id = 1, e_grade = Some ''A'',
                     e_enrollment_date = 7\<rparr>,
     \<lparr>students = [\<lparr>s_id = 1, s_name = ''John Doe'', s_email = ''john@example.com'', s_age = 20,
                    s_created_at = 0, s_updated_at = 0\<rparr>],
      courses = [\<lparr>c_id = 1, c_title = ''Mathematics'', c_description = None, c_credits = 3,
                   c_instructor = ''Dr. Smith'', c_created_at = 0, c_updated_at = 0\<rparr>],
      enrollments = [\<lparr>e_id = 1, e_student_id = 1, e_course_id = 1, e_grade = Some ''A'',
                       e_enrollment_date = 7\<rparr>]\<rparr>)
   \<and>
   fst (create_enrollment None 8 \<lparr>ec_student_id = 1, ec_course_id = 1, ec_grade = None\<rparr>
     \<lparr>students = [\<lparr>s_id = 1, s_name = ''John Doe'', s_email = ''john@example.com'', s_age = 20,
                    s_created_at = 0, s_updated_at = 0\<rparr>],
      courses = [\<lparr>c_id = 1, c_title = ''Mathematics'', c_description = None, c_credits = 3,
                   c_instructor = ''Dr. Smith'', c_created_at = 0, c_updated_at = 0\<rparr>],
      enrollments = [\<lparr>e_id = 1, e_student_id = 1, e_course_id = 1, e_grade = Some ''A'',
                       e_enrollment_date = 7\<rparr>]\<rparr>)
   = HTTPException 400 ''Student already enrolled in this course''"
  (is "create_enrollment None 7 ?b9 ?st = ?r1 \<and>
       fst (create_enrollment None 7 ?b19 ?st) = ?r2 \<and>
       create_enrollment None 7 ?b11 ?st = ?r3 \<and>
       fst (create_enrollment None 8 ?b11n ?st2) = ?r4")
proof -
  have h1: "fits_int64 (ec_student_id ?b9) \<and> ec_student_id ?b9 \<notin> s_id ` set (students ?st)"
    by (simp add: fits_int64_def)
  have h2: "fits_int64 (ec_student_id ?b19) \<and> fits_int64 (ec_course_id ?b19) \<and>
      (\<forall>e \<in> set (enrollments ?st). e_id e < 9223372036854775807)"
    by (simp add: fits_int64_def)
  have h3: "fits_int64 (ec_student_id ?b11) \<and> fits_int64 (ec_course_id ?b11) \<and>
      (\<forall>e \<in> set (enrollments ?st). e_id e < 9223372036854775807)"
    by (simp add: fits_int64_def)
  have h4: "fits_int64 (ec_student_id ?b11n) \<and> fits_int64 (ec_course_id ?b11n) \<and>
      (\<forall>e \<in> set (enrollments ?st2). e_id e < 9223372036854775807)"
    by (simp add: fits_int64_def)
  have 1: "create_enrollment None 7 ?b9 ?st = ?r1"
    by (rule create_enrollment_chain [THEN conjunct1, THEN mp, OF h1])
  from create_enrollment_chain [THEN conjunct2, THEN mp, OF h2, THEN conjunct1, of None 7]
  have 2: "fst (create_enrollment None 7 ?b19 ?st) = ?r2"
    by (simp add: pairs_def)
  from create_enrollment_chain [THEN conjunct2, THEN mp, OF h3, THEN conjunct1, of None 7]
  have 3: "create_enrollment None 7 ?b11 ?st = ?r3"
    by (simp add: pairs_def next_id_def)
  from create_enrollment_chain [THEN conjunct2, THEN mp, OF h4, THEN conjunct1, of None 8]
  have 4: "fst (create_enrollment None 8 ?b11n ?st2) = ?r4"
    by (simp add: pairs_def)
  show ?thesis
    by (intro conjI 1 2 3 4)
qed

section \<open>Uniqueness of enrollment pairs\<close>

lemma create_student_enrollments:
  "enrollments (snd (create_student fault now now2 b st)) = enrollments st"
  by (cases fault)
     (auto simp: create_student_def insert_student_def Let_def
       split: option.splits db_exception.splits)

lemma update_student_enrollments:
  "enrollments (snd (update_student fault now i b st)) = enrollments st"
  by (cases fault)
     (auto simp: update_student_def commit_student_def Let_def
       split: option.splits db_exception.splits)

lemma delete_student_enrollments:
  "enrollments (snd (delete_student fault i st)) = enrollments st"
  by (cases fault) (auto simp: delete_student_def remove_student_def split: option.splits)

lemma create_course_enrollments:
  "enrollments (snd (create_course fault now now2 b st)) = enrollments st"
  by (cases fault) (auto simp: create_course_def insert_course_def Let_def)

lemma update_course_enrollments:
  "enrollments (snd (update_course fault now i b st)) = enrollments st"
  by (cases fault)
     (auto simp: update_course_def commit_course_def Let_def split: option.splits)

lemma delete_course_enrollments:
  "enrollments (snd (delete_course fault i st)) = enrollments st"
  by (cases fault) (auto simp: delete_course_def remove_course_def split: option.splits)

lemma create_enrollment_pairs:
  "distinct (pairs st) \<Longrightarrow> distinct (pairs (snd (create_enrollment fault now b st)))"
  by (cases fault)
     (auto simp: create_enrollment_def insert_enrollment_def Let_def pairs_def
         find_enrollment_by_pair_None
       split: option.splits)

lemma update_enrollment_rows:
  assumes "\<And>e g. f (e\<lparr>e_grade := g\<rparr>) = f e"
  shows "map f (enrollments (snd (update_enrollment fault i p st))) = map f (enrollments st)"
proof (cases "get_enrollment st i")
  case None
  then show ?thesis by (simp add: update_enrollment_def)
next
  case (Some db)
  show ?thesis
  proof (cases fault)
    case None
    have "map f (map (\<lambda>e. if e_id e = e_id db then e\<lparr>e_grade := g\<rparr> else e) (enrollments st))
        = map f (enrollments st)" for g
      by (rule map_proj_update) (rule assms)
    with Some None show ?thesis
      by (simp add: update_enrollment_def commit_enrollment_def Let_def)
  next
    case (Some e)
    with \<open>get_enrollment st i = Some db\<close> show ?thesis
      by (simp add: update_enrollment_def commit_enrollment_def)
  qed
qed

lemma update_enrollment_pairs: "pairs (snd (update_enrollment fault i p st)) = pairs st"
  unfolding pairs_def by (rule update_enrollment_rows) simp

lemma delete_enrollment_pairs:
  "distinct (pairs st) \<Longrightarrow> distinct (pairs (snd (delete_enrollment fault i st)))"
  by (cases fault)
     (auto simp: delete_enrollment_def remove_enrollment_def pairs_def distinct_map_filter
       split: option.splits)

lemma handle_pairs:
  "distinct (pairs st) \<Longrightarrow> distinct (pairs (handle fault now now2 r st))"
  by (cases r)
     (simp_all add: create_enrollment_pairs update_enrollment_pairs delete_enrollment_pairs,
      simp_all add: pairs_def create_student_enrollments update_student_enrollments
        delete_student_enrollments create_course_enrollments update_course_enrollments
        delete_course_enrollments)

lemma run_pairs: "distinct (pairs st) \<Longrightarrow> distinct (pairs (run rs st))"
  by (induction rs arbitrary: st) (auto simp: handle_pairs)

lemma create_enrollment_duplicate:
  assumes "(ec_student_id b, ec_course_id b) \<in> set (pairs st)"
  shows "snd (create_enrollment fault now b st) = st"
    and "fst (create_enrollment fault now b st) \<in>
           {HTTPException 404 ''Student not found'', HTTPException 404 ''Course not found'',
            HTTPException 400 ''Student already enrolled in this course''}"
proof -
  from assms have "find_enrollment_by_pair st (ec_student_id b) (ec_course_id b) \<noteq> None"
    by (simp add: find_enrollment_by_pair_None pairs_def)
  moreover from assms have "bindable st (ec_student_id b)" "bindable st (ec_course_id b)"
    by (auto simp: bindable_def stored_ids_def pairs_def)
  ultimately show "snd (create_enrollment fault now b st) = st"
    and "fst (create_enrollment fault now b st) \<in>
           {HTTPException 404 ''Student not found'', HTTPException 404 ''Course not found'',
            HTTPException 400 ''Student already enrolled in this course''}"
    by (auto simp: create_enrollment_def split: option.splits)
qed

text \<open>
  Claim C2. In every store reached from the empty store by a sequence of requests no
  two enrollment rows have the same (student_id, course_id) pair. In particular a
  creation whose pair is already in the table is refused and leaves the store as it
  was, and an enrollment update, whose schema has the grade only, changes no row's
  id, student_id, course_id or enrollment date.
\<close>

theorem enrollment_pairs_unique:
  "distinct (pairs (run rs empty_store)) \<and>
   ((ec_student_id b, ec_course_id b) \<in> set (pairs st) \<longrightarrow>
      snd (create_enrollment fault now b st) = st \<and>
      fst (create_enrollment fault now b st) \<in>
        {HTTPException 404 ''Student not found'', HTTPException 404 ''Course not found'',
         HTTPException 400 ''Student already enrolled in this course''}) \<and>
   map (\<lambda>e. (e_id e, e_student_id e, e_course_id e, e_enrollment_date e))
       (enrollments (snd (update_enrollment fault i p st)))
     = map (\<lambda>e. (e_id e, e_student_id e, e_course_id e, e_enrollment_date e)) (enrollments st)"
proof -
  have "distinct (pairs empty_store)" by (simp add: pairs_def empty_store_def)
  then have "distinct (pairs (run rs empty_store))" by (rule run_pairs)
  moreover have "map (\<lambda>e. (e_id e, e_student_id e, e_course_id e, e_enrollment_date e))
       (enrollments (snd (update_enrollment fault i p st)))
     = map (\<lambda>e. (e_id e, e_student_id e, e_course_id e, e_enrollment_date e)) (enrollments st)"
    by (rule update_enrollment_rows) simp
  ultimately show ?thesis
    using create_enrollment_duplicate [of b st fault now] by blast
qed

theorem enrollment_pairs_unique_witness:
  "pairs (run [(None, 0, 0, CreateStudent \<lparr>sc_name = ''John Doe'', sc_email = ''john@example.com'', sc_age = 20\<rparr>),
               (None, 1, 1, CreateCourse \<lparr>cc_title = ''Mathematics'', cc_description = None,
                                       cc_credits = 3, cc_instructor = ''Dr. Smith''\<rparr>),
               (None, 2, 2, CreateEnrollment \<lparr>ec_student_id = 1, ec_course_id = 1, ec_grade = None\<rparr>),
               (None, 3, 3, CreateEnrollment \<lparr>ec_student_id = 1, ec_course_id = 1, ec_grade = Some ''A''\<rparr>),
               (None, 4, 4, UpdateEnrollment 1 \<lparr>eu_grade = Supplied (Some ''B'')\<rparr>)] empty_store) = [(1, 1)] \<and>
   distinct (pairs (run [(None, 0, 0, CreateStudent \<lparr>sc_name = ''John Doe'', sc_email = ''john@example.com'', sc_age = 20\<rparr>),
               (None, 1, 1, CreateCourse \<lparr>cc_title = ''Mathematics'', cc_description = None,
                                       cc_credits = 3, cc_instructor = ''Dr. Smith''\<rparr>),
               (None, 2, 2, CreateEnrollment \<lparr>ec_student_id = 1, ec_course_id = 1, ec_grade = None\<rparr>),
               (None, 3, 3, CreateEnrollment \<lparr>ec_student_id = 1, ec_course_id = 1, ec_grade = Some ''A''\<rparr>),
               (None, 4, 4, UpdateEnrollment 1 \<lparr>eu_grade = Supplied (Some ''B'')\<rparr>)] empty_store)) \<and>
   (1, 1) \<in> set (pairs \<lparr>students = [], courses = [],
        enrollments = [\<lparr>e_id = 1, e_student_id = 1, e_course_id = 1, e_grade = None,
                         e_enrollment_date = 2\<rparr>]\<rparr>) \<and>
   snd (create_enrollment None 3 \<lparr>ec_student_id = 1, ec_course_id = 1, ec_grade = Some ''A''\<rparr>
      \<lparr>students = [], courses = [],
        enrollments = [\<lparr>e_id = 1, e_student_id = 1, e_course_id = 1, e_grade = None,
                         e_enrollment_date = 2\<rparr>]\<rparr>)
     = \<lparr>students = [], courses = [],
        enrollments = [\<lparr>e_id = 1, e_student_id = 1, e_course_id = 1, e_grade = None,
                         e_enrollment_date = 2\<rparr>]\<rparr> \<and>
   enrollments (snd (update_enrollment None 1 \<lparr>eu_grade = Supplied (Some ''B'')\<rparr>
      \<lparr>students = [], courses = [],
        enrollments = [\<lparr>e_id = 1, e_student_id = 1, e_course_id = 1, e_grade = None,
                         e_enrollment_date = 2\<rparr>]\<rparr>))
     = [\<lparr>e_id = 1, e_student_id = 1, e_course_id = 1, e_grade = Some ''B'',
          e_enrollment_date = 2\<rparr>]"
  using enrollment_pairs_unique
    [of "[(None, 0, 0, CreateStudent \<lparr>sc_name = ''John Doe'', sc_email = ''john@example.com'', sc_age = 20\<rparr>),
               (None, 1, 1, CreateCourse \<lparr>cc_title = ''Mathematics'', cc_description = None,
                                       cc_credits = 3, cc_instructor = ''Dr. Smith''\<rparr>),
               (None, 2, 2, CreateEnrollment \<lparr>ec_student_id = 1, ec_course_id = 1, ec_grade = None\<rparr>),
               (None, 3, 3, CreateEnrollment \<lparr>ec_student_id = 1, ec_course_id = 1, ec_grade = Some ''A''\<rparr>),
               (None, 4, 4, UpdateEnrollment 1 \<lparr>eu_grade = Supplied (Some ''B'')\<rparr>)]"
        "\<lparr>ec_student_id = 1, ec_course_id = 1, ec_grade = Some ''A''\<rparr>"
        "\<lparr>students = [], courses = [],
        enrollments = [\<lparr>e_id = 1, e_student_id = 1, e_course_id = 1, e_grade = None,
                         e_enrollment_date = 2\<rparr>]\<rparr>"
        None 3 1 "\<lparr>eu_grade = Supplied (Some ''B'')\<rparr>"]
  by (simp add: pairs_def empty_store_def Let_def
        create_student_def insert_student_def find_student_by_email_def
        create_course_def insert_course_def
        create_enrollment_def insert_enrollment_def get_student_def get_course_def
        find_enrollment_by_pair_def next_id_def bindable_def fits_int64_def
        update_enrollment_def commit_enrollment_def get_enrollment_def)

section \<open>Write-time failures\<close>

text \<open>
  Claim C3. A constraint violation that the store raises at write time, after the
  handler's own checks have passed, should be answered like the failed check, never
  with 500. The student handlers do catch \<^verbatim>\<open>IntegrityError\<close> and answer 400,
  but \<^verbatim>\<open>create_enrollment\<close> has no such clause: with student 1 and course 1 present
  and no enrollment yet, an \<^verbatim>\<open>IntegrityError\<close> of the commit is rolled back and
  answered with the generic 500, while the same exception in \<^verbatim>\<open>create_student\<close>
  gives 400.
\<close>

theorem create_enrollment_integrity_error_500:
  "create_enrollment (Some IntegrityError) 7
     \<lparr>ec_student_id = 1, ec_course_id = 1, ec_grade = None\<rparr>
     \<lparr>students = [\<lparr>s_id = 1, s_name = ''John Doe'', s_email = ''john@example.com'', s_age = 20,
                    s_created_at = 0, s_updated_at = 0\<rparr>],
      courses = [\<lparr>c_id = 1, c_title = ''Mathematics'', c_description = None, c_credits = 3,
                   c_instructor = ''Dr. Smith'', c_created_at = 0, c_updated_at = 0\<rparr>],
      enrollments = []\<rparr>
   = (HTTPException 500 ''An error occurred while creating the enrollment'',
     \<lparr>students = [\<lparr>s_id = 1, s_name = ''John Doe'', s_email = ''john@example.com'', s_age = 20,
                    s_created_at = 0, s_updated_at = 0\<rparr>],
      courses = [\<lparr>c_id = 1, c_title = ''Mathematics'', c_description = None, c_credits = 3,
                   c_instructor = ''Dr. Smith'', c_created_at = 0, c_updated_at = 0\<rparr>],
      enrollments = []\<rparr>)
   \<and>
   fst (create_student (Some IntegrityError) 7 7
     \<lparr>sc_name = ''Jane Doe'', sc_email = ''jane@example.com'', sc_age = 22\<rparr>
     \<lparr>students = [\<lparr>s_id = 1, s_name = ''John Doe'', s_email = ''john@example.com'', s_age = 20,
                    s_created_at = 0, s_updated_at = 0\<rparr>],
      courses = [\<lparr>c_id = 1, c_title = ''Mathematics'', c_description = None, c_credits = 3,
                   c_instructor = ''Dr. Smith'', c_created_at = 0, c_updated_at = 0\<rparr>],
      enrollments = []\<rparr>)
   = HTTPException 400 ''Failed to create student. Email may already exist.''"
  by (simp add: create_enrollment_def insert_enrollment_def get_student_def get_course_def
        find_enrollment_by_pair_def create_student_def insert_student_def
        find_student_by_email_def bindable_def fits_int64_def)

section \<open>Student creation\<close>

lemma create_student_cases:
  "create_student fault now now2 b st =
     (if sc_email b \<in> s_email ` set (students st)
        then (HTTPException 400 ''Email already registered'', st)
      else (case fault of
              None \<Rightarrow>
                (Response 201
                   \<lparr>s_id = next_id (map s_id (students st)), s_name = sc_name b,
                    s_email = sc_email b, s_age = sc_age b,
                    s_created_at = now, s_updated_at = now2\<rparr>,
                 st\<lparr>students := students st @
                       [\<lparr>s_id = next_id (map s_id (students st)), s_name = sc_name b,
                         s_email = sc_email b, s_age = sc_age b,
                         s_created_at = now, s_updated_at = now2\<rparr>]\<rparr>)
            | Some IntegrityError \<Rightarrow>
                (HTTPException 400 ''Failed to create student. Email may already exist.'', st)
            | Some OtherException \<Rightarrow>
                (HTTPException 500 ''An error occurred while creating the student'', st)))"
proof -
  have m: "(find_student_by_email st (sc_email b) = None) =
      (sc_email b \<notin> s_email ` set (students st))"
    by (rule find_student_by_email_None)
  show ?thesis
    using m
    by (cases "find_student_by_email st (sc_email b)"; cases fault)
       (auto simp: create_student_def insert_student_def Let_def split: db_exception.splits)
qed

lemma validate_StudentCreateD:
  assumes "validate_StudentCreate email_str body = Some student"
  shows "email_str (sc_email body) = Some (sc_email student)"
    and "sc_name student = sc_name body" and "sc_age student = sc_age body"
  using assms
  by (auto simp: validate_StudentCreate_def split: if_splits option.splits)

text \<open>
  Claim C4, as stated, fails in two places. The id of a new student is one more than
  the largest stored id, so after the student with the largest id is deleted the
  next student gets that id again: Jane is created with id 2 and deleted, and Bob is
  then created with id 2. And the route stores the address as \<^verbatim>\<open>EmailStr\<close> returns
  it, not the string of the body: with an \<^verbatim>\<open>EmailStr\<close> that returns the domain in
  lower case, as pydantic's does, the body email UP@EXAMPLE.COM comes back as
  UP@example.com.
\<close>

theorem create_student_id_reused:
  "fst (create_student None 1 1
          \<lparr>sc_name = ''Jane'', sc_email = ''jane@example.com'', sc_age = 22\<rparr>
          (run [(None, 0, 0, CreateStudent
                   \<lparr>sc_name = ''John'', sc_email = ''john@example.com'', sc_age = 20\<rparr>)]
             empty_store))
     = Response 201 \<lparr>s_id = 2, s_name = ''Jane'', s_email = ''jane@example.com'', s_age = 22,
                     s_created_at = 1, s_updated_at = 1\<rparr> \<and>
   fst (create_student None 3 3
          \<lparr>sc_name = ''Bob'', sc_email = ''bob@example.com'', sc_age = 30\<rparr>
          (run [(None, 0, 0, CreateStudent
                   \<lparr>sc_name = ''John'', sc_email = ''john@example.com'', sc_age = 20\<rparr>),
                (None, 1, 1, CreateStudent
                   \<lparr>sc_name = ''Jane'', sc_email = ''jane@example.com'', sc_age = 22\<rparr>),
                (None, 2, 2, DeleteStudent 2)]
             empty_store))
     = Response 201 \<lparr>s_id = 2, s_name = ''Bob'', s_email = ''bob@example.com'', s_age = 30,
                     s_created_at = 3, s_updated_at = 3\<rparr> \<and>
   fst (post_students (map_of [(''UP@EXAMPLE.COM'', ''UP@example.com'')])
          None 0 0 \<lparr>sc_name = ''Up'', sc_email = ''UP@EXAMPLE.COM'', sc_age = 20\<rparr> empty_store)
     = Response 201 \<lparr>s_id = 1, s_name = ''Up'', s_email = ''UP@example.com'', s_age = 20,
                     s_created_at = 0, s_updated_at = 0\<rparr>"
  by (simp add: empty_store_def create_student_cases next_id_def delete_student_def
        remove_student_def get_student_def post_students_def validate_StudentCreate_def
        str_ok_def int_ok_def)

text \<open>
  Claim C4, amended. For a body that passes validation and a store whose student ids
  are below the largest 64-bit integer: when the email, as \<^verbatim>\<open>EmailStr\<close> returns it,
  is the email of a stored student, POST /students/ answers 400 "Email already
  registered" and leaves the store as it was; otherwise the student is appended and
  returned with 201, with the name and age of the body, with the email as
  \<^verbatim>\<open>EmailStr\<close> returns it, and with an id that no stored student has (it is one more
  than the largest stored id, so the id of a deleted student can be given again).
\<close>

theorem create_student_unique_email:
  "validate_StudentCreate email_str body = Some student \<and>
   (\<forall>s \<in> set (students st). s_id s < 9223372036854775807) \<longrightarrow>
     email_str (sc_email body) = Some (sc_email student) \<and>
     post_students email_str None now now2 body st =
       (if sc_email student \<in> s_email ` set (students st)
          then (HTTPException 400 ''Email already registered'', st)
        else (Response 201
                \<lparr>s_id = next_id (map s_id (students st)), s_name = sc_name body,
                 s_email = sc_email student, s_age = sc_age body,
                 s_created_at = now, s_updated_at = now2\<rparr>,
              st\<lparr>students := students st @
                    [\<lparr>s_id = next_id (map s_id (students st)), s_name = sc_name body,
                      s_email = sc_email student, s_age = sc_age body,
                      s_created_at = now, s_updated_at = now2\<rparr>]\<rparr>)) \<and>
     next_id (map s_id (students st)) \<notin> s_id ` set (students st)"
proof
  assume a: "validate_StudentCreate email_str body = Some student \<and>
    (\<forall>s \<in> set (students st). s_id s < 9223372036854775807)"
  then have v: "validate_StudentCreate email_str body = Some student" by simp
  note d = validate_StudentCreateD [OF v]
  have fresh: "next_id (map s_id (students st)) \<notin> s_id ` set (students st)"
    using next_id_fresh [of "map s_id (students st)"] by simp
  show "email_str (sc_email body) = Some (sc_email student) \<and>
     post_students email_str None now now2 body st =
       (if sc_email student \<in> s_email ` set (students st)
          then (HTTPException 400 ''Email already registered'', st)
        else (Response 201
                \<lparr>s_id = next_id (map s_id (students st)), s_name = sc_name body,
                 s_email = sc_email student, s_age = sc_age body,
                 s_created_at = now, s_updated_at = now2\<rparr>,
              st\<lparr>students := students st @
                    [\<lparr>s_id = next_id (map s_id (students st)), s_name = sc_name body,
                      s_email = sc_email student, s_age = sc_age body,
                      s_created_at = now, s_updated_at = now2\<rparr>]\<rparr>)) \<and>
     next_id (map s_id (students st)) \<notin> s_id ` set (students st)"
    using d fresh by (simp add: post_students_def v create_student_cases)
qed

theorem create_student_unique_email_witness:
  "post_students (\<lambda>m. if CHR ''@'' \<in> set m then Some m else None) None 1 2
     \<lparr>sc_name = ''Jane Doe'', sc_email = ''john@example.com'', sc_age = 22\<rparr>
     \<lparr>students = [\<lparr>s_id = 1, s_name = ''John Doe'', s_email = ''john@example.com'', s_age = 20,
                    s_created_at = 0, s_updated_at = 0\<rparr>],
      courses = [], enrollments = []\<rparr>
   = (HTTPException 400 ''Email already registered'',
      \<lparr>students = [\<lparr>s_id = 1, s_name = ''John Doe'', s_email = ''john@example.com'', s_age = 20,
                     s_created_at = 0, s_updated_at = 0\<rparr>],
       courses = [], enrollments = []\<rparr>) \<and>
   post_students (\<lambda>m. if CHR ''@'' \<in> set m then Some m else None) None 1 2
     \<lparr>sc_name = ''Jane Smith'', sc_email = ''jane@example.com'', sc_age = 22\<rparr>
     \<lparr>students = [\<lparr>s_id = 1, s_name = ''John Doe'', s_email = ''john@example.com'', s_age = 20,
                    s_created_at = 0, s_updated_at = 0\<rparr>],
      courses = [], enrollments = []\<rparr>
   = (Response 201 \<lparr>s_id = 2, s_name = ''Jane Smith'', s_email = ''jane@example.com'', s_age = 22,
                     s_created_at = 1, s_updated_at = 2\<rparr>,
      \<lparr>students = [\<lparr>s_id = 1, s_name = ''John Doe'', s_email = ''john@example.com'', s_age = 20,
                     s_created_at = 0, s_updated_at = 0\<rparr>,
                   \<lparr>s_id = 2, s_name = ''Jane Smith'', s_email = ''jane@example.com'', s_age = 22,
                     s_created_at = 1, s_updated_at = 2\<rparr>],
       courses = [], enrollments = []\<rparr>)"
  (is "post_students ?E None 1 2 ?dup ?st = ?r1 \<and> post_students ?E None 1 2 ?new ?st = ?r2")
proof -
  have h1: "validate_StudentCreate ?E ?dup = Some ?dup \<and>
      (\<forall>s \<in> set (students ?st). s_id s < 9223372036854775807)"
    by (simp add: validate_StudentCreate_def str_ok_def int_ok_def)
  have h2: "validate_StudentCreate ?E ?new = Some ?new \<and>
      (\<forall>s \<in> set (students ?st). s_id s < 9223372036854775807)"
    by (simp add: validate_StudentCreate_def str_ok_def int_ok_def)
  note t1 = create_student_unique_email
    [where email_str = "?E" and body = "?dup" and student = "?dup" and st = "?st"
       and now = 1 and ?now2.0 = 2]
  note t2 = create_student_unique_email
    [where email_str = "?E" and body = "?new" and student = "?new" and st = "?st"
       and now = 1 and ?now2.0 = 2]
  from t1 [THEN mp, OF h1] have 1: "post_students ?E None 1 2 ?dup ?st = ?r1"
    by simp
  from t2 [THEN mp, OF h2] have 2: "post_students ?E None 1 2 ?new ?st = ?r2"
    by (simp add: next_id_def)
  from 1 2 show ?thesis by (rule conjI)
qed

section \<open>Student update\<close>

lemma find_update:
  "(\<And>x. k (upd x) = k x) \<Longrightarrow>
   find (\<lambda>x. k x = i) (map (\<lambda>x. if k x = i then upd x else x) xs)
     = map_option upd (find (\<lambda>x. k x = i) xs)"
  by (induction xs) auto

lemma filter_update_other:
  "(\<And>x. k (upd x) = k x) \<Longrightarrow>
   filter (\<lambda>x. k x \<noteq> i) (map (\<lambda>x. if k x = i then upd x else x) xs)
     = filter (\<lambda>x. k x \<noteq> i) xs"
  by (induction xs) auto

lemma unique_row:
  assumes "distinct (map k xs)" and "find (\<lambda>x. k x = i) xs = Some db"
    and "x \<in> set xs" and "k x = i"
  shows "x = db"
proof -
  from assms(2) have "db \<in> set xs" "k db = i"
    by (auto simp: find_Some_iff)
  moreover from assms(1) have "inj_on k (set xs)"
    by (simp add: distinct_map)
  ultimately show ?thesis
    using assms(3,4) by (auto dest: inj_onD)
qed

lemma update_student_ResponseD:
  assumes get: "get_student st i = Some db"
    and upd: "update_student fault now i p st = (Response c row, st')"
  shows "\<exists>n m a. set_attr (su_name p) (s_name db) = Some n \<and>
           set_attr (su_email p) (s_email db) = Some m \<and>
           set_attr (su_age p) (s_age db) = Some a \<and>
           fault = None \<and> c = 200 \<and>
           row = db\<lparr>s_name := n, s_email := m, s_age := a, s_updated_at := now\<rparr> \<and>
           st' = st\<lparr>students :=
                   map (\<lambda>s. if s_id s = i
                            then s\<lparr>s_name := n, s_email := m, s_age := a, s_updated_at := now\<rparr>
                            else s) (students st)\<rparr>"
proof -
  from get have id: "s_id db = i" by (simp add: get_studentD)
  from upd get obtain r where
    c: "commit_student fault db (set_attr (su_name p) (s_name db))
          (set_attr (su_email p) (s_email db)) (set_attr (su_age p) (s_age db)) now st
        = Inr (r, st')" and r: "r = row" and "c = 200"
    by (auto simp: update_student_def split: if_splits sum.splits db_exception.splits)
  from c r \<open>c = 200\<close> id show ?thesis
    by (auto simp: commit_student_def Let_def split: option.splits if_splits)
qed

lemma update_student_errorD:
  "update_student fault now i p st = (HTTPException c d, st') \<Longrightarrow> st' = st"
  by (auto simp: update_student_def split: option.splits if_splits sum.splits db_exception.splits)

lemma update_student_not_validation:
  "fst (update_student fault now i p st) \<noteq> RequestValidationError"
  by (auto simp: update_student_def split: option.splits if_splits sum.splits db_exception.splits)

lemma set_attr_Unset: "set_attr Unset cur = Some cur"
  by (simp add: set_attr_def)

lemma set_attr_Supplied: "set_attr (Supplied v) cur = v"
  by (simp add: set_attr_def)

text \<open>
  Claim C5. A successful PUT /students/{id} (always 200) changes, in the row with that
  id, the fields the body supplied and the update time, and nothing else: a field the
  body does not mention keeps its stored value, the id and the creation time stay,
  the returned row is the stored row, and the rows with another id are unchanged; an
  update that is refused leaves the store as it was. After creating John Doe
  (john@example.com, 20) and updating with name "John Updated" and age 21, the
  response and the stored row have the email john@example.com. A field set to null
  is not absent: the null is written to the row, and for the student's columns, none
  of which is nullable, the store refuses it (400).
\<close>

theorem update_student_partial:
  "(get_student st i = Some db \<and> update_student fault now i p st = (Response c row, st') \<longrightarrow>
      c = 200 \<and> get_student st' i = Some row \<and>
      s_id row = s_id db \<and> s_created_at row = s_created_at db \<and> s_updated_at row = now \<and>
      (su_name p = Unset \<longrightarrow> s_name row = s_name db) \<and>
      (su_email p = Unset \<longrightarrow> s_email row = s_email db) \<and>
      (su_age p = Unset \<longrightarrow> s_age row = s_age db) \<and>
      (\<forall>v. su_name p = Supplied v \<longrightarrow> v = Some (s_name row)) \<and>
      (\<forall>v. su_email p = Supplied v \<longrightarrow> v = Some (s_email row)) \<and>
      (\<forall>v. su_age p = Supplied v \<longrightarrow> v = Some (s_age row)) \<and>
      filter (\<lambda>s. s_id s \<noteq> i) (students st') = filter (\<lambda>s. s_id s \<noteq> i) (students st) \<and>
      courses st' = courses st \<and> enrollments st' = enrollments st) \<and>
   (update_student fault now i p st = (HTTPException c d, st') \<longrightarrow> st' = st) \<and>
   update_student None 5 1
       \<lparr>su_name = Supplied (Some ''John Updated''), su_email = Unset, su_age = Supplied (Some 21)\<rparr>
       (snd (create_student None 0 0
          \<lparr>sc_name = ''John Doe'', sc_email = ''john@example.com'', sc_age = 20\<rparr> empty_store))
     = (Response 200
          \<lparr>s_id = 1, s_name = ''John Updated'', s_email = ''john@example.com'', s_age = 21,
           s_created_at = 0, s_updated_at = 5\<rparr>,
        \<lparr>students =
           [\<lparr>s_id = 1, s_name = ''John Updated'', s_email = ''john@example.com'', s_age = 21,
             s_created_at = 0, s_updated_at = 5\<rparr>],
         courses = [], enrollments = []\<rparr>) \<and>
   (get_student st i = Some db \<and>
      (su_name p = Supplied None \<or> su_email p = Supplied None \<or> su_age p = Supplied None) \<longrightarrow>
      status_code (fst (update_student None now i p st)) = 400 \<and>
      snd (update_student None now i p st) = st)"
proof -
  have 1: "c = 200 \<and> get_student st' i = Some row \<and>
      s_id row = s_id db \<and> s_created_at row = s_created_at db \<and> s_updated_at row = now \<and>
      (su_name p = Unset \<longrightarrow> s_name row = s_name db) \<and>
      (su_email p = Unset \<longrightarrow> s_email row = s_email db) \<and>
      (su_age p = Unset \<longrightarrow> s_age row = s_age db) \<and>
      (\<forall>v. su_name p = Supplied v \<longrightarrow> v = Some (s_name row)) \<and>
      (\<forall>v. su_email p = Supplied v \<longrightarrow> v = Some (s_email row)) \<and>
      (\<forall>v. su_age p = Supplied v \<longrightarrow> v = Some (s_age row)) \<and>
      filter (\<lambda>s. s_id s \<noteq> i) (students st') = filter (\<lambda>s. s_id s \<noteq> i) (students st) \<and>
      courses st' = courses st \<and> enrollments st' = enrollments st"
    if get: "get_student st i = Some db"
      and upd: "update_student fault now i p st = (Response c row, st')"
  proof -
    from update_student_ResponseD [OF get upd] obtain n m a where
      n: "set_attr (su_name p) (s_name db) = Some n" and
      m: "set_attr (su_email p) (s_email db) = Some m" and
      a: "set_attr (su_age p) (s_age db) = Some a" and
      c: "c = 200" and
      row: "row = db\<lparr>s_name := n, s_email := m, s_age := a, s_updated_at := now\<rparr>" and
      st': "st' = st\<lparr>students :=
                   map (\<lambda>s. if s_id s = i
                            then s\<lparr>s_name := n, s_email := m, s_age := a, s_updated_at := now\<rparr>
                            else s) (students st)\<rparr>"
      by blast
    have "find (\<lambda>s. s_id s = i)
            (map (\<lambda>s. if s_id s = i
                     then s\<lparr>s_name := n, s_email := m, s_age := a, s_updated_at := now\<rparr>
                     else s) (students st))
          = map_option (\<lambda>s. s\<lparr>s_name := n, s_email := m, s_age := a, s_updated_at := now\<rparr>)
              (find (\<lambda>s. s_id s = i) (students st))"
      by (rule find_update) simp
    with get have g: "get_student st' i = Some row"
      by (simp add: get_student_def st' row)
    have f: "filter (\<lambda>s. s_id s \<noteq> i) (students st') = filter (\<lambda>s. s_id s \<noteq> i) (students st)"
      unfolding st' by (simp add: filter_update_other)
    from n m a have fields:
      "su_name p = Unset \<longrightarrow> s_name row = s_name db"
      "su_email p = Unset \<longrightarrow> s_email row = s_email db"
      "su_age p = Unset \<longrightarrow> s_age row = s_age db"
      "\<forall>v. su_name p = Supplied v \<longrightarrow> v = Some (s_name row)"
      "\<forall>v. su_email p = Supplied v \<longrightarrow> v = Some (s_email row)"
      "\<forall>v. su_age p = Supplied v \<longrightarrow> v = Some (s_age row)"
      by (auto simp: row set_attr_def)
    show ?thesis
      using c g f fields by (simp add: row st')
  qed
  have 2: "st' = st" if "update_student fault now i p st = (HTTPException c d, st')"
    using that by (rule update_student_errorD)
  have 3: "update_student None 5 1
       \<lparr>su_name = Supplied (Some ''John Updated''), su_email = Unset, su_age = Supplied (Some 21)\<rparr>
       (snd (create_student None 0 0
          \<lparr>sc_name = ''John Doe'', sc_email = ''john@example.com'', sc_age = 20\<rparr> empty_store))
     = (Response 200
          \<lparr>s_id = 1, s_name = ''John Updated'', s_email = ''john@example.com'', s_age = 21,
           s_created_at = 0, s_updated_at = 5\<rparr>,
        \<lparr>students =
           [\<lparr>s_id = 1, s_name = ''John Updated'', s_email = ''john@example.com'', s_age = 21,
             s_created_at = 0, s_updated_at = 5\<rparr>],
         courses = [], enrollments = []\<rparr>)"
    by (simp add: create_student_def insert_student_def find_student_by_email_def
          empty_store_def update_student_def get_student_def email_conflict_def attr_def
          commit_student_def set_attr_def Let_def next_id_def)
  have 4: "status_code (fst (update_student None now i p st)) = 400 \<and>
      snd (update_student None now i p st) = st"
    if get: "get_student st i = Some db"
      and null: "su_name p = Supplied None \<or> su_email p = Supplied None \<or> su_age p = Supplied None"
    using get null
    by (auto simp: update_student_def commit_student_def set_attr_def split: option.splits)
  show ?thesis
    using 1 2 3 4 by blast
qed



theorem update_student_partial_witness:
  "get_student
     \<lparr>students = [\<lparr>s_id = 1, s_name = ''John Doe'', s_email = ''john@example.com'', s_age = 20,
                    s_created_at = 0, s_updated_at = 0\<rparr>],
      courses = [], enrollments = []\<rparr> 1
     = Some \<lparr>s_id = 1, s_name = ''John Doe'', s_email = ''john@example.com'', s_age = 20,
             s_created_at = 0, s_updated_at = 0\<rparr> \<and>
   update_student None 5 1
     \<lparr>su_name = Supplied (Some ''John Updated''), su_email = Unset, su_age = Supplied (Some 21)\<rparr>
     \<lparr>students = [\<lparr>s_id = 1, s_name = ''John Doe'', s_email = ''john@example.com'', s_age = 20,
                    s_created_at = 0, s_updated_at = 0\<rparr>],
      courses = [], enrollments = []\<rparr>
     = (Response 200
          \<lparr>s_id = 1, s_name = ''John Updated'', s_email = ''john@example.com'', s_age = 21,
           s_created_at = 0, s_updated_at = 5\<rparr>,
        \<lparr>students =
           [\<lparr>s_id = 1, s_name = ''John Updated'', s_email = ''john@example.com'', s_age = 21,
             s_created_at = 0, s_updated_at = 5\<rparr>],
         courses = [], enrollments = []\<rparr>) \<and>
   get_student
     \<lparr>students =
        [\<lparr>s_id = 1, s_name = ''John Updated'', s_email = ''john@example.com'', s_age = 21,
          s_created_at = 0, s_updated_at = 5\<rparr>],
      courses = [], enrollments = []\<rparr> 1
     = Some \<lparr>s_id = 1, s_name = ''John Updated'', s_email = ''john@example.com'', s_age = 21,
             s_created_at = 0, s_updated_at = 5\<rparr> \<and>
   status_code (fst (update_student None 7 1
     \<lparr>su_name = Unset, su_email = Supplied None, su_age = Unset\<rparr>
     \<lparr>students = [\<lparr>s_id = 1, s_name = ''John Doe'', s_email = ''john@example.com'', s_age = 20,
                    s_created_at = 0, s_updated_at = 0\<rparr>],
      courses = [], enrollments = []\<rparr>)) = 400"
  (is "?G \<and> ?U \<and> ?G' \<and> ?N")
proof -
  have G: ?G
    by (simp add: get_student_def)
  have U: ?U
    by (simp add: update_student_def get_student_def email_conflict_def attr_def
          commit_student_def set_attr_def Let_def)
  note r = update_student_partial [THEN conjunct1, THEN mp, OF conjI [OF G U]]
  have G': ?G'
    by (rule r [THEN conjunct2, THEN conjunct1])
  have null: "su_name \<lparr>su_name = Unset, su_email = Supplied None, su_age = Unset\<rparr> = Supplied None \<or>
        su_email \<lparr>su_name = Unset, su_email = Supplied None, su_age = Unset\<rparr> = Supplied None \<or>
        su_age \<lparr>su_name = Unset, su_email = Supplied None, su_age = Unset\<rparr> = Supplied None"
    by simp
  have N: ?N
    by (rule update_student_partial
          [THEN conjunct2, THEN conjunct2, THEN conjunct2, THEN mp, OF conjI [OF G null],
           THEN conjunct1])
  show ?thesis
    by (intro conjI G U G' N)
qed

section \<open>Email check on update\<close>

lemma no_conflict_own_email:
  "attr (su_email p) = None \<or> attr (su_email p) = Some (s_email db) \<Longrightarrow>
   \<not> email_conflict p db st"
  by (auto simp: email_conflict_def)

lemma update_student_no_conflict:
  assumes "get_student st i = Some db" and "\<not> email_conflict p db st"
  shows "fst (update_student fault now i p st) \<noteq> HTTPException 400 ''Email already registered''"
  using assms
  by (auto simp: update_student_def split: sum.splits db_exception.splits)

lemma update_student_own_email:
  assumes get: "get_student st i = Some db"
    and m: "su_email p = Supplied (Some (s_email db))"
    and n: "su_name p \<noteq> Supplied None" and a: "su_age p \<noteq> Supplied None"
  shows "fst (update_student None now i p st) =
           Response 200 (db\<lparr>s_name := the (set_attr (su_name p) (s_name db)),
                            s_age := the (set_attr (su_age p) (s_age db)),
                            s_updated_at := now\<rparr>)"
proof -
  from m have nc: "\<not> email_conflict p db st"
    by (simp add: email_conflict_def attr_def)
  from n obtain n' where n': "set_attr (su_name p) (s_name db) = Some n'"
    by (cases "su_name p") (auto simp: set_attr_def)
  from a obtain a' where a': "set_attr (su_age p) (s_age db) = Some a'"
    by (cases "su_age p") (auto simp: set_attr_def)
  from m have m': "set_attr (su_email p) (s_email db) = Some (s_email db)"
    by (simp add: set_attr_def)
  show ?thesis
    using get nc n' a' m'
    by (simp add: update_student_def commit_student_def Let_def)
qed

lemma update_student_other_email:
  assumes ok: "store_ok st" and get: "get_student st i = Some db"
    and other: "other \<in> set (students st)" "s_id other \<noteq> i" "s_email other \<noteq> []"
    and m: "su_email p = Supplied (Some (s_email other))"
  shows "update_student fault now i p st = (HTTPException 400 ''Email already registered'', st)"
proof -
  from get have db: "db \<in> set (students st)" "s_id db = i"
    by (simp_all add: get_studentD)
  from ok have "inj_on s_email (set (students st))"
    by (simp add: store_ok_def distinct_map)
  with db other have "s_email other \<noteq> s_email db"
    by (auto dest: inj_onD)
  moreover from other have "find_student_by_email st (s_email other) \<noteq> None"
    by (auto simp: find_student_by_email_None)
  ultimately have "email_conflict p db st"
    using m other by (simp add: email_conflict_def attr_def)
  with get show ?thesis
    by (simp add: update_student_def)
qed

text \<open>
  Claim C6. On PUT /students/{id} for a stored student the email is looked up only
  when the body supplies one that differs from the student's own. Supplying the
  student's current email succeeds (200) and the email stays; supplying the email of
  another stored student is answered with 400 "Email already registered" and the
  store is left as it was; when the email is not supplied, is null, or is the
  student's own, the answer is never that conflict.
\<close>

theorem update_student_email_check:
  "(get_student st i = Some db \<and> su_email p = Supplied (Some (s_email db)) \<and>
      su_name p \<noteq> Supplied None \<and> su_age p \<noteq> Supplied None \<longrightarrow>
      fst (update_student None now i p st) =
        Response 200 (db\<lparr>s_name := the (set_attr (su_name p) (s_name db)),
                         s_age := the (set_attr (su_age p) (s_age db)),
                         s_updated_at := now\<rparr>)) \<and>
   (store_ok st \<and> get_student st i = Some db \<and> other \<in> set (students st) \<and>
      s_id other \<noteq> i \<and> s_email other \<noteq> [] \<and>
      su_email p = Supplied (Some (s_email other)) \<longrightarrow>
      update_student fault now i p st = (HTTPException 400 ''Email already registered'', st)) \<and>
   (get_student st i = Some db \<and>
      (su_email p = Unset \<or> su_email p = Supplied None \<or>
       su_email p = Supplied (Some (s_email db))) \<longrightarrow>
      fst (update_student fault now i p st) \<noteq> HTTPException 400 ''Email already registered'')"
proof -
  have 3: "fst (update_student fault now i p st) \<noteq> HTTPException 400 ''Email already registered''"
    if get: "get_student st i = Some db"
      and m: "su_email p = Unset \<or> su_email p = Supplied None \<or>
              su_email p = Supplied (Some (s_email db))"
  proof -
    from m have "attr (su_email p) = None \<or> attr (su_email p) = Some (s_email db)"
      by (auto simp: attr_def)
    then have "\<not> email_conflict p db st" by (rule no_conflict_own_email)
    with get show ?thesis by (rule update_student_no_conflict)
  qed
  show ?thesis
    using update_student_own_email [of st i db p now]
      update_student_other_email [of st i db other p fault now] 3
    by blast
qed

theorem update_student_email_check_witness:
  "fst (update_student None 5 2
     \<lparr>su_name = Unset, su_email = Supplied (Some ''jane@example.com''), su_age = Supplied (Some 23)\<rparr>
     \<lparr>students = [\<lparr>s_id = 1, s_name = ''John'', s_email = ''john@example.com'', s_age = 20,
                    s_created_at = 0, s_updated_at = 0\<rparr>,
                  \<lparr>s_id = 2, s_name = ''Jane'', s_email = ''jane@example.com'', s_age = 22,
                    s_created_at = 1, s_updated_at = 1\<rparr>],
      courses = [], enrollments = []\<rparr>)
     = Response 200 \<lparr>s_id = 2, s_name = ''Jane'', s_email = ''jane@example.com'', s_age = 23,
                     s_created_at = 1, s_updated_at = 5\<rparr> \<and>
   update_student None 6 2
     \<lparr>su_name = Unset, su_email = Supplied (Some ''john@example.com''), su_age = Unset\<rparr>
     \<lparr>students = [\<lparr>s_id = 1, s_name = ''John'', s_email = ''john@example.com'', s_age = 20,
                    s_created_at = 0, s_updated_at = 0\<rparr>,
                  \<lparr>s_id = 2, s_name = ''Jane'', s_email = ''jane@example.com'', s_age = 22,
                    s_created_at = 1, s_updated_at = 1\<rparr>],
      courses = [], enrollments = []\<rparr>
     = (HTTPException 400 ''Email already registered'',
        \<lparr>students = [\<lparr>s_id = 1, s_name = ''John'', s_email = ''john@example.com'', s_age = 20,
                       s_created_at = 0, s_updated_at = 0\<rparr>,
                     \<lparr>s_id = 2, s_name = ''Jane'', s_email = ''jane@example.com'', s_age = 22,
                       s_created_at = 1, s_updated_at = 1\<rparr>],
         courses = [], enrollments = []\<rparr>)"
  (is "fst (update_student None 5 2 ?p ?st) = Response 200 ?row \<and>
       update_student None 6 2 ?q ?st = ?err")
proof -
  let ?john = "\<lparr>s_id = 1, s_name = ''John'', s_email = ''john@example.com'', s_age = 20,
                 s_created_at = 0, s_updated_at = 0\<rparr>"
  let ?jane = "\<lparr>s_id = 2, s_name = ''Jane'', s_email = ''jane@example.com'', s_age = 22,
                 s_created_at = 1, s_updated_at = 1\<rparr>"
  have ok: "store_ok ?st"
    by (simp add: store_ok_def)
  have get: "get_student ?st 2 = Some ?jane"
    by (simp add: get_student_def)
  have own: "get_student ?st 2 = Some ?jane \<and> su_email ?p = Supplied (Some (s_email ?jane)) \<and>
      su_name ?p \<noteq> Supplied None \<and> su_age ?p \<noteq> Supplied None"
    using get by simp
  have other: "store_ok ?st \<and> get_student ?st 2 = Some ?jane \<and> ?john \<in> set (students ?st) \<and>
      s_id ?john \<noteq> 2 \<and> s_email ?john \<noteq> [] \<and> su_email ?q = Supplied (Some (s_email ?john))"
    using ok get by simp
  from update_student_email_check [THEN conjunct1, THEN mp, OF own]
  have 1: "fst (update_student None 5 2 ?p ?st) = Response 200 ?row"
    by (simp add: set_attr_def)
  from update_student_email_check [THEN conjunct2, THEN conjunct1, THEN mp, OF other]
  have 2: "update_student None 6 2 ?q ?st = ?err" .
  from 1 2 show ?thesis by (rule conjI)
qed

section \<open>Empty patches\<close>

lemma update_student_empty_patch:
  assumes ok: "store_ok st" and get: "get_student st i = Some db"
  shows "update_student None now i \<lparr>su_name = Unset, su_email = Unset, su_age = Unset\<rparr> st =
           (Response 200 (db\<lparr>s_updated_at := now\<rparr>),
            st\<lparr>students :=
                 map (\<lambda>s. if s_id s = i then s\<lparr>s_updated_at := now\<rparr> else s) (students st)\<rparr>)"
proof -
  from get have id: "s_id db = i" by (simp add: get_studentD)
  from ok have d: "distinct (map s_id (students st))" by (simp add: store_ok_def)
  have same: "s = db" if "s \<in> set (students st)" "s_id s = i" for s
    using d get that unfolding get_student_def by (rule unique_row)
  have "map (\<lambda>s. if s_id s = i
                  then s\<lparr>s_name := s_name db, s_email := s_email db, s_age := s_age db,
                         s_updated_at := now\<rparr>
                  else s) (students st)
        = map (\<lambda>s. if s_id s = i then s\<lparr>s_updated_at := now\<rparr> else s) (students st)"
    by (rule map_cong) (auto dest: same)
  with get id show ?thesis
    by (simp add: update_student_def email_conflict_def attr_def commit_student_def
          set_attr_def Let_def)
qed

lemma update_course_empty_patch:
  assumes ok: "store_ok st" and get: "get_course st j = Some dc"
  shows "update_course None now j
           \<lparr>cu_title = Unset, cu_description = Unset, cu_credits = Unset, cu_instructor = Unset\<rparr> st =
           (Response 200 (dc\<lparr>c_updated_at := now\<rparr>),
            st\<lparr>courses :=
                 map (\<lambda>c. if c_id c = j then c\<lparr>c_updated_at := now\<rparr> else c) (courses st)\<rparr>)"
proof -
  from get have id: "c_id dc = j" by (simp add: get_courseD)
  from ok have d: "distinct (map c_id (courses st))" by (simp add: store_ok_def)
  have same: "c = dc" if "c \<in> set (courses st)" "c_id c = j" for c
    using d get that unfolding get_course_def by (rule unique_row)
  have "map (\<lambda>c. if c_id c = j
                  then c\<lparr>c_title := c_title dc, c_description := c_description dc,
                         c_credits := c_credits dc, c_instructor := c_instructor dc,
                         c_updated_at := now\<rparr>
                  else c) (courses st)
        = map (\<lambda>c. if c_id c = j then c\<lparr>c_updated_at := now\<rparr> else c) (courses st)"
    by (rule map_cong) (auto dest: same)
  with get id show ?thesis
    by (simp add: update_course_def commit_course_def set_attr_def Let_def)
qed

text \<open>
  Claim C10. A PUT /students/{id} or PUT /courses/{id} for a stored id whose body
  supplies no field is not an error: it is answered with 200 and the stored row with
  its update time set to the current time; in the store only the update time of that
  row changes, every other field, every other row and the other tables stay as they
  were.
\<close>

theorem empty_patch_refreshes_updated_at:
  "(store_ok st \<and> get_student st i = Some db \<longrightarrow>
      update_student None now i \<lparr>su_name = Unset, su_email = Unset, su_age = Unset\<rparr> st =
        (Response 200 (db\<lparr>s_updated_at := now\<rparr>),
         st\<lparr>students :=
              map (\<lambda>s. if s_id s = i then s\<lparr>s_updated_at := now\<rparr> else s) (students st)\<rparr>)) \<and>
   (store_ok st \<and> get_course st j = Some dc \<longrightarrow>
      update_course None now j
        \<lparr>cu_title = Unset, cu_description = Unset, cu_credits = Unset, cu_instructor = Unset\<rparr> st =
        (Response 200 (dc\<lparr>c_updated_at := now\<rparr>),
         st\<lparr>courses :=
              map (\<lambda>c. if c_id c = j then c\<lparr>c_updated_at := now\<rparr> else c) (courses st)\<rparr>))"
  using update_student_empty_patch [of st i db now] update_course_empty_patch [of st j dc now]
  by blast

theorem empty_patch_refreshes_updated_at_witness:
  "update_student None 9 2 \<lparr>su_name = Unset, su_email = Unset, su_age = Unset\<rparr>
     \<lparr>students = [\<lparr>s_id = 1, s_name = ''John'', s_email = ''john@example.com'', s_age = 20,
                    s_created_at = 0, s_updated_at = 0\<rparr>,
                  \<lparr>s_id = 2, s_name = ''Jane'', s_email = ''jane@example.com'', s_age = 22,
                    s_created_at = 1, s_updated_at = 1\<rparr>],
      courses = [\<lparr>c_id = 1, c_title = ''Mathematics'', c_description = None, c_credits = 3,
                   c_instructor = ''Dr. Smith'', c_created_at = 2, c_updated_at = 2\<rparr>],
      enrollments = []\<rparr>
     = (Response 200 \<lparr>s_id = 2, s_name = ''Jane'', s_email = ''jane@example.com'', s_age = 22,
                      s_created_at = 1, s_updated_at = 9\<rparr>,
        \<lparr>students = [\<lparr>s_id = 1, s_name = ''John'', s_email = ''john@example.com'', s_age = 20,
                       s_created_at = 0, s_updated_at = 0\<rparr>,
                     \<lparr>s_id = 2, s_name = ''Jane'', s_email = ''jane@example.com'', s_age = 22,
                       s_created_at = 1, s_updated_at = 9\<rparr>],
         courses = [\<lparr>c_id = 1, c_title = ''Mathematics'', c_description = None, c_credits = 3,
                      c_instructor = ''Dr. Smith'', c_created_at = 2, c_updated_at = 2\<rparr>],
         enrollments = []\<rparr>) \<and>
   update_course None 9 1
     \<lparr>cu_title = Unset, cu_description = Unset, cu_credits = Unset, cu_instructor = Unset\<rparr>
     \<lparr>students = [\<lparr>s_id = 1, s_name = ''John'', s_email = ''john@example.com'', s_age = 20,
                    s_created_at = 0, s_updated_at = 0\<rparr>,
                  \<lparr>s_id = 2, s_name = ''Jane'', s_email = ''jane@example.com'', s_age = 22,
                    s_created_at = 1, s_updated_at = 1\<rparr>],
      courses = [\<lparr>c_id = 1, c_title = ''Mathematics'', c_description = None, c_credits = 3,
                   c_instructor = ''Dr. Smith'', c_created_at = 2, c_updated_at = 2\<rparr>],
      enrollments = []\<rparr>
     = (Response 200 \<lparr>c_id = 1, c_title = ''Mathematics'', c_description = None, c_credits = 3,
                      c_instructor = ''Dr. Smith'', c_created_at = 2, c_updated_at = 9\<rparr>,
        \<lparr>students = [\<lparr>s_id = 1, s_name = ''John'', s_email = ''john@example.com'', s_age = 20,
                       s_created_at = 0, s_updated_at = 0\<rparr>,
                     \<lparr>s_id = 2, s_name = ''Jane'', s_email = ''jane@example.com'', s_age = 22,
                       s_created_at = 1, s_updated_at = 1\<rparr>],
         courses = [\<lparr>c_id = 1, c_title = ''Mathematics'', c_description = None, c_credits = 3,
                      c_instructor = ''Dr. Smith'', c_created_at = 2, c_updated_at = 9\<rparr>],
         enrollments = []\<rparr>)"
  (is "update_student None 9 2 ?p ?st = ?rs \<and> update_course None 9 1 ?q ?st = ?rc")
proof -
  let ?jane = "\<lparr>s_id = 2, s_name = ''Jane'', s_email = ''jane@example.com'', s_age = 22,
                 s_created_at = 1, s_updated_at = 1\<rparr>"
  let ?maths = "\<lparr>c_id = 1, c_title = ''Mathematics'', c_description = None, c_credits = 3,
                  c_instructor = ''Dr. Smith'', c_created_at = 2, c_updated_at = 2\<rparr>"
  have ok: "store_ok ?st"
    by (simp add: store_ok_def)
  have s: "store_ok ?st \<and> get_student ?st 2 = Some ?jane"
    using ok by (simp add: get_student_def)
  have c: "store_ok ?st \<and> get_course ?st 1 = Some ?maths"
    using ok by (simp add: get_course_def)
  from empty_patch_refreshes_updated_at [THEN conjunct1, THEN mp, OF s, of 9]
  have 1: "update_student None 9 2 ?p ?st = ?rs" by simp
  from empty_patch_refreshes_updated_at [THEN conjunct2, THEN mp, OF c, of 9]
  have 2: "update_course None 9 1 ?q ?st = ?rc" by simp
  from 1 2 show ?thesis by (rule conjI)
qed

section \<open>Student deletion\<close>

lemma filter_neq_absent: "x \<notin> set xs \<Longrightarrow> filter (\<lambda>y. y \<noteq> x) xs = xs"
  by (induction xs) auto

lemma length_filter_neq:
  "distinct xs \<Longrightarrow> x \<in> set xs \<Longrightarrow> length (filter (\<lambda>y. y \<noteq> x) xs) + 1 = length xs"
  by (induction xs) (auto simp: filter_neq_absent)

lemma delete_student_present:
  assumes ok: "store_ok st" and get: "get_student st i = Some s"
  shows "delete_student None i st =
           (Response 204 (), st\<lparr>students := filter (\<lambda>x. s_id x \<noteq> i) (students st)\<rparr>)"
    and "set (filter (\<lambda>x. s_id x \<noteq> i) (students st)) = set (students st) - {s}"
    and "length (filter (\<lambda>x. s_id x \<noteq> i) (students st)) + 1 = length (students st)"
    and "read_student i (st\<lparr>students := filter (\<lambda>x. s_id x \<noteq> i) (students st)\<rparr>)
           = HTTPException 404 ''Student not found''"
proof -
  from get show "delete_student None i st =
           (Response 204 (), st\<lparr>students := filter (\<lambda>x. s_id x \<noteq> i) (students st)\<rparr>)"
    by (simp add: delete_student_def remove_student_def)
  from get have s: "s \<in> set (students st)" "s_id s = i"
    by (simp_all add: get_studentD)
  from ok have d: "distinct (map s_id (students st))" by (simp add: store_ok_def)
  have eq: "(s_id x \<noteq> i) = (x \<noteq> s)" if "x \<in> set (students st)" for x
  proof (cases "s_id x = i")
    case True
    with d get that have "x = s" unfolding get_student_def by (rule unique_row)
    with True show ?thesis by simp
  next
    case False
    with s(2) show ?thesis by blast
  qed
  have f: "filter (\<lambda>x. s_id x \<noteq> i) (students st) = filter (\<lambda>x. x \<noteq> s) (students st)"
    by (rule filter_cong [OF refl]) (rule eq)
  show "set (filter (\<lambda>x. s_id x \<noteq> i) (students st)) = set (students st) - {s}"
    unfolding f by auto
  from d have dx: "distinct (students st)" by (simp add: distinct_map)
  then have "length (filter (\<lambda>x. x \<noteq> s) (students st)) + 1 = length (students st)"
    using s(1) by (rule length_filter_neq)
  then show "length (filter (\<lambda>x. s_id x \<noteq> i) (students st)) + 1 = length (students st)"
    unfolding f .
  show "read_student i (st\<lparr>students := filter (\<lambda>x. s_id x \<noteq> i) (students st)\<rparr>)
           = HTTPException 404 ''Student not found''"
  proof -
    have "get_student (st\<lparr>students := filter (\<lambda>x. s_id x \<noteq> i) (students st)\<rparr>) i = None"
      by (auto simp: get_student_None)
    then show ?thesis by (simp add: read_student_def)
  qed
qed

text \<open>
  Claim C9. DELETE /students/{id} for a stored id is answered with 204 whether or not
  enrollments reference the student: no enrollment is looked at. Exactly that one
  student row is removed; the enrollment rows (those of the deleted student included),
  the course rows and the id sequences stay as they were, and a GET of the same id
  afterwards is answered with 404.
\<close>

theorem delete_student_unconditional:
  "store_ok st \<and> get_student st i = Some s \<longrightarrow>
     delete_student None i st =
       (Response 204 (), st\<lparr>students := filter (\<lambda>x. s_id x \<noteq> i) (students st)\<rparr>) \<and>
     set (students (snd (delete_student None i st))) = set (students st) - {s} \<and>
     length (students (snd (delete_student None i st))) + 1 = length (students st) \<and>
     enrollments (snd (delete_student None i st)) = enrollments st \<and>
     courses (snd (delete_student None i st)) = courses st \<and>
     read_student i (snd (delete_student None i st)) = HTTPException 404 ''Student not found''"
proof
  assume a: "store_ok st \<and> get_student st i = Some s"
  then have ok: "store_ok st" and get: "get_student st i = Some s" by simp_all
  note d = delete_student_present [OF ok get]
  show "delete_student None i st =
       (Response 204 (), st\<lparr>students := filter (\<lambda>x. s_id x \<noteq> i) (students st)\<rparr>) \<and>
     set (students (snd (delete_student None i st))) = set (students st) - {s} \<and>
     length (students (snd (delete_student None i st))) + 1 = length (students st) \<and>
     enrollments (snd (delete_student None i st)) = enrollments st \<and>
     courses (snd (delete_student None i st)) = courses st \<and>
     read_student i (snd (delete_student None i st)) = HTTPException 404 ''Student not found''"
    unfolding d(1) using d(2,3,4) by simp
qed

theorem delete_student_unconditional_witness:
  "delete_student None 1
     \<lparr>students = [\<lparr>s_id = 1, s_name = ''John'', s_email = ''john@example.com'', s_age = 20,
                    s_created_at = 0, s_updated_at = 0\<rparr>,
                  \<lparr>s_id = 2, s_name = ''Jane'', s_email = ''jane@example.com'', s_age = 22,
                    s_created_at = 1, s_updated_at = 1\<rparr>],
      courses = [\<lparr>c_id = 1, c_title = ''Mathematics'', c_description = None, c_credits = 3,
                   c_instructor = ''Dr. Smith'', c_created_at = 2, c_updated_at = 2\<rparr>],
      enrollments = [\<lparr>e_id = 1, e_student_id = 1, e_course_id = 1, e_grade = Some ''A'',
                       e_enrollment_date = 3\<rparr>]\<rparr>
     = (Response 204 (),
        \<lparr>students = [\<lparr>s_id = 2, s_name = ''Jane'', s_email = ''jane@example.com'', s_age = 22,
                       s_created_at = 1, s_updated_at = 1\<rparr>],
         courses = [\<lparr>c_id = 1, c_title = ''Mathematics'', c_description = None, c_credits = 3,
                      c_instructor = ''Dr. Smith'', c_created_at = 2, c_updated_at = 2\<rparr>],
         enrollments = [\<lparr>e_id = 1, e_student_id = 1, e_course_id = 1, e_grade = Some ''A'',
                          e_enrollment_date = 3\<rparr>]\<rparr>) \<and>
   read_student 1
     (snd (delete_student None 1
        \<lparr>students = [\<lparr>s_id = 1, s_name = ''John'', s_email = ''john@example.com'', s_age = 20,
                       s_created_at = 0, s_updated_at = 0\<rparr>,
                     \<lparr>s_id = 2, s_name = ''Jane'', s_email = ''jane@example.com'', s_age = 22,
                       s_created_at = 1, s_updated_at = 1\<rparr>],
         courses = [\<lparr>c_id = 1, c_title = ''Mathematics'', c_description = None, c_credits = 3,
                      c_instructor = ''Dr. Smith'', c_created_at = 2, c_updated_at = 2\<rparr>],
         enrollments = [\<lparr>e_id = 1, e_student_id = 1, e_course_id = 1, e_grade = Some ''A'',
                          e_enrollment_date = 3\<rparr>]\<rparr>))
     = HTTPException 404 ''Student not found''"
  (is "delete_student None 1 ?st = ?res \<and> read_student 1 (snd (delete_student None 1 ?st)) = ?nf")
proof -
  let ?john = "\<lparr>s_id = 1, s_name = ''John'', s_email = ''john@example.com'', s_age = 20,
                 s_created_at = 0, s_updated_at = 0\<rparr>"
  have h: "store_ok ?st \<and> get_student ?st 1 = Some ?john"
    by (simp add: store_ok_def get_student_def)
  note r = delete_student_unconditional [THEN mp, OF h]
  from r have 1: "delete_student None 1 ?st = ?res" by simp
  from r have 2: "read_student 1 (snd (delete_student None 1 ?st)) = ?nf" by (elim conjE)
  from 1 2 show ?thesis by (rule conjI)
qed

section \<open>List endpoints\<close>

lemma offset_limit_take_drop:
  "0 \<le> skip \<Longrightarrow> 0 \<le> limit \<Longrightarrow>
   offset_limit skip limit rows = take (nat limit) (drop (nat skip) rows)"
  by (simp add: offset_limit_def)

lemma create_student_appends:
  "create_student fault now now2 b st = (Response c row, st') \<Longrightarrow>
   students st' = students st @ [row]"
  by (cases fault)
     (auto simp: create_student_def insert_student_def Let_def
       split: option.splits db_exception.splits if_splits)

lemma create_course_appends:
  "create_course fault now now2 b st = (Response c row, st') \<Longrightarrow>
   courses st' = courses st @ [row]"
  by (cases fault) (auto simp: create_course_def insert_course_def Let_def)

lemma create_enrollment_appends:
  "create_enrollment fault now b st = (Response c row, st') \<Longrightarrow>
   enrollments st' = enrollments st @ [row]"
  by (cases fault)
     (auto simp: create_enrollment_def insert_enrollment_def Let_def
       split: option.splits if_splits)

lemma create_refused_unchanged:
  "create_student fault now now2 sb st = (HTTPException c d, st') \<Longrightarrow> st' = st"
  "create_course fault now now2 cb st = (HTTPException c d, st') \<Longrightarrow> st' = st"
  "create_enrollment fault now eb st = (HTTPException c d, st') \<Longrightarrow> st' = st"
  by (cases fault;
      auto simp: create_student_def insert_student_def create_course_def insert_course_def
        create_enrollment_def insert_enrollment_def Let_def
      split: option.splits db_exception.splits if_splits)+

text \<open>
  Claim C8. For \<open>skip\<close> and \<open>limit\<close> from 0 up to the largest 64-bit integer (beyond it
  the query raises and the answer is 500), the list endpoints answer 200 with the rows
  of the table in creation order, \<open>skip\<close> rows dropped from the front and at most
  \<open>limit\<close> rows kept. Creation order is the order of the table: a creation that
  answers with a row puts exactly that row behind all the rows already stored, and
  a creation that is refused changes nothing. After five students are created in an
  empty store, GET /students/?skip=2&limit=2 returns the third and the fourth of
  them, in that order.
\<close>

theorem list_skip_limit:
  "(0 \<le> skip \<and> skip < 9223372036854775808 \<and> 0 \<le> limit \<and> limit < 9223372036854775808 \<longrightarrow>
      read_students skip limit st = Response 200 (take (nat limit) (drop (nat skip) (students st))) \<and>
      read_courses skip limit st = Response 200 (take (nat limit) (drop (nat skip) (courses st))) \<and>
      read_enrollments skip limit st
        = Response 200 (take (nat limit) (drop (nat skip) (enrollments st)))) \<and>
   (create_student fault now now2 sb st = (Response c1 srow, st1) \<longrightarrow>
      students st1 = students st @ [srow]) \<and>
   (create_course fault now now2 cb st = (Response c2 crow, st2) \<longrightarrow>
      courses st2 = courses st @ [crow]) \<and>
   (create_enrollment fault now eb st = (Response c3 erow, st3) \<longrightarrow>
      enrollments st3 = enrollments st @ [erow]) \<and>
   (create_student fault now now2 sb st = (HTTPException c4 d4, st4) \<longrightarrow> st4 = st) \<and>
   (create_course fault now now2 cb st = (HTTPException c5 d5, st5) \<longrightarrow> st5 = st) \<and>
   (create_enrollment fault now eb st = (HTTPException c6 d6, st6) \<longrightarrow> st6 = st) \<and>
   read_students 2 2
     (run [(None, 10, 10, CreateStudent \<lparr>sc_name = ''Student 0'', sc_email = ''student0@example.com'', sc_age = 20\<rparr>),
           (None, 11, 11, CreateStudent \<lparr>sc_name = ''Student 1'', sc_email = ''student1@example.com'', sc_age = 21\<rparr>),
           (None, 12, 12, CreateStudent \<lparr>sc_name = ''Student 2'', sc_email = ''student2@example.com'', sc_age = 22\<rparr>),
           (None, 13, 13, CreateStudent \<lparr>sc_name = ''Student 3'', sc_email = ''student3@example.com'', sc_age = 23\<rparr>),
           (None, 14, 14, CreateStudent \<lparr>sc_name = ''Student 4'', sc_email = ''student4@example.com'', sc_age = 24\<rparr>)]
        empty_store)
     = Response 200
         [\<lparr>s_id = 3, s_name = ''Student 2'', s_email = ''student2@example.com'', s_age = 22,
           s_created_at = 12, s_updated_at = 12\<rparr>,
          \<lparr>s_id = 4, s_name = ''Student 3'', s_email = ''student3@example.com'', s_age = 23,
           s_created_at = 13, s_updated_at = 13\<rparr>]"
proof -
  have 1: "read_students skip limit st = Response 200 (take (nat limit) (drop (nat skip) (students st))) \<and>
      read_courses skip limit st = Response 200 (take (nat limit) (drop (nat skip) (courses st))) \<and>
      read_enrollments skip limit st
        = Response 200 (take (nat limit) (drop (nat skip) (enrollments st)))"
    if "0 \<le> skip \<and> skip < 9223372036854775808 \<and> 0 \<le> limit \<and> limit < 9223372036854775808"
    using that
    by (simp add: read_students_def read_courses_def read_enrollments_def
          offset_limit_take_drop fits_int64_def)
  have 2: "read_students 2 2
     (run [(None, 10, 10, CreateStudent \<lparr>sc_name = ''Student 0'', sc_email = ''student0@example.com'', sc_age = 20\<rparr>),
           (None, 11, 11, CreateStudent \<lparr>sc_name = ''Student 1'', sc_email = ''student1@example.com'', sc_age = 21\<rparr>),
           (None, 12, 12, CreateStudent \<lparr>sc_name = ''Student 2'', sc_email = ''student2@example.com'', sc_age = 22\<rparr>),
           (None, 13, 13, CreateStudent \<lparr>sc_name = ''Student 3'', sc_email = ''student3@example.com'', sc_age = 23\<rparr>),
           (None, 14, 14, CreateStudent \<lparr>sc_name = ''Student 4'', sc_email = ''student4@example.com'', sc_age = 24\<rparr>)]
        empty_store)
     = Response 200
         [\<lparr>s_id = 3, s_name = ''Student 2'', s_email = ''student2@example.com'', s_age = 22,
           s_created_at = 12, s_updated_at = 12\<rparr>,
          \<lparr>s_id = 4, s_name = ''Student 3'', s_email = ''student3@example.com'', s_age = 23,
           s_created_at = 13, s_updated_at = 13\<rparr>]"
    by (simp add: read_students_def offset_limit_def empty_store_def create_student_def
          insert_student_def find_student_by_email_def Let_def next_id_def fits_int64_def)
  show ?thesis
    using 1 2 create_student_appends [of fault now now2 sb st c1 srow st1]
      create_course_appends [of fault now now2 cb st c2 crow st2]
      create_enrollment_appends [of fault now eb st c3 erow st3]
      create_refused_unchanged(1) [of fault now now2 sb st c4 d4 st4]
      create_refused_unchanged(2) [of fault now now2 cb st c5 d5 st5]
      create_refused_unchanged(3) [of fault now eb st c6 d6 st6]
    by blast
qed

theorem list_skip_limit_witness:
  "read_students 1 1
     \<lparr>students = [\<lparr>s_id = 1, s_name = ''John'', s_email = ''john@example.com'', s_age = 20,
                    s_created_at = 0, s_updated_at = 0\<rparr>,
                  \<lparr>s_id = 2, s_name = ''Jane'', s_email = ''jane@example.com'', s_age = 22,
                    s_created_at = 1, s_updated_at = 1\<rparr>],
      courses = [], enrollments = []\<rparr>
     = Response 200 [\<lparr>s_id = 2, s_name = ''Jane'', s_email = ''jane@example.com'', s_age = 22,
                      s_created_at = 1, s_updated_at = 1\<rparr>] \<and>
   create_course None 5 6
     \<lparr>cc_title = ''Physics'', cc_description = None, cc_credits = 4, cc_instructor = ''Dr. Jones''\<rparr>
     \<lparr>students = [],
      courses = [\<lparr>c_id = 1, c_title = ''Mathematics'', c_description = None, c_credits = 3,
                   c_instructor = ''Dr. Smith'', c_created_at = 2, c_updated_at = 2\<rparr>],
      enrollments = []\<rparr>
     = (Response 201
          \<lparr>c_id = 2, c_title = ''Physics'', c_description = None, c_credits = 4,
           c_instructor = ''Dr. Jones'', c_created_at = 5, c_updated_at = 6\<rparr>,
        \<lparr>students = [],
         courses = [\<lparr>c_id = 1, c_title = ''Mathematics'', c_description = None, c_credits = 3,
                      c_instructor = ''Dr. Smith'', c_created_at = 2, c_updated_at = 2\<rparr>,
                    \<lparr>c_id = 2, c_title = ''Physics'', c_description = None, c_credits = 4,
                      c_instructor = ''Dr. Jones'', c_created_at = 5, c_updated_at = 6\<rparr>],
         enrollments = []\<rparr>) \<and>
   courses
     \<lparr>students = [],
      courses = [\<lparr>c_id = 1, c_title = ''Mathematics'', c_description = None, c_credits = 3,
                   c_instructor = ''Dr. Smith'', c_created_at = 2, c_updated_at = 2\<rparr>,
                 \<lparr>c_id = 2, c_title = ''Physics'', c_description = None, c_credits = 4,
                   c_instructor = ''Dr. Jones'', c_created_at = 5, c_updated_at = 6\<rparr>],
      enrollments = []\<rparr>
     = courses
         \<lparr>students = [],
          courses = [\<lparr>c_id = 1, c_title = ''Mathematics'', c_description = None, c_credits = 3,
                       c_instructor = ''Dr. Smith'', c_created_at = 2, c_updated_at = 2\<rparr>],
          enrollments = []\<rparr>
       @ [\<lparr>c_id = 2, c_title = ''Physics'', c_description = None, c_credits = 4,
            c_instructor = ''Dr. Jones'', c_created_at = 5, c_updated_at = 6\<rparr>]"
  (is "read_students 1 1 ?st = ?res \<and> create_course None 5 6 ?cb ?cst = (Response 201 ?crow, ?cst') \<and>
       courses ?cst' = courses ?cst @ [?crow]")
proof -
  have h: "(0::int) \<le> 1 \<and> (1::int) < 9223372036854775808 \<and>
           (0::int) \<le> 1 \<and> (1::int) < 9223372036854775808" by simp
  from list_skip_limit [THEN conjunct1, THEN mp, OF h, THEN conjunct1, of ?st]
  have 1: "read_students 1 1 ?st = ?res" by simp
  have 2: "create_course None 5 6 ?cb ?cst = (Response 201 ?crow, ?cst')"
    by (simp add: create_course_def insert_course_def next_id_def Let_def)
  have 3: "courses ?cst' = courses ?cst @ [?crow]"
    by (rule list_skip_limit [THEN conjunct2, THEN conjunct2, THEN conjunct1, THEN mp, OF 2])
  show ?thesis
    by (intro conjI 1 2 3)
qed

section \<open>Validation before the store\<close>

lemma validate_StudentCreate_examples:
  "sc_age b = 0 \<or> email_str (sc_email b) = None \<Longrightarrow> validate_StudentCreate email_str b = None"
  by (auto simp: validate_StudentCreate_def int_ok_def)

lemma validate_StudentUpdate_examples:
  "su_age p = Supplied (Some 0) \<or> (su_email p = Supplied (Some m) \<and> email_str m = None) \<Longrightarrow>
   validate_StudentUpdate email_str p = None"
  by (auto simp: validate_StudentUpdate_def int_ok_def field_ok_def opt_ok_def)

lemma validate_Course_examples:
  "cc_credits b = 0 \<Longrightarrow> validate_CourseCreate b = None"
  "cu_credits p = Supplied (Some 0) \<Longrightarrow> validate_CourseUpdate p = None"
  by (auto simp: validate_CourseCreate_def validate_CourseUpdate_def int_ok_def field_ok_def
        opt_ok_def)

text \<open>
  Claim C7. A body that violates the schema of its route is answered with 422 and the
  handler is not called, so the store after the request is the store before it; this
  holds for the create and the update route of students, courses and enrollments.
  An age of 0, a number of credits of 0 and a string that is not an email address
  violate the schemas.
\<close>

theorem validation_rejects_before_store:
  "(validate_StudentCreate email_str sb = None \<longrightarrow>
      post_students email_str fault now now2 sb st = (RequestValidationError, st)) \<and>
   (validate_StudentUpdate email_str sp = None \<longrightarrow>
      put_students email_str fault now i sp st = (RequestValidationError, st)) \<and>
   (validate_CourseCreate cb = None \<longrightarrow>
      post_courses fault now now2 cb st = (RequestValidationError, st)) \<and>
   (validate_CourseUpdate cp = None \<longrightarrow>
      put_courses fault now i cp st = (RequestValidationError, st)) \<and>
   (validate_EnrollmentCreate eb = None \<longrightarrow>
      post_enrollments fault now eb st = (RequestValidationError, st)) \<and>
   (validate_EnrollmentUpdate ep = None \<longrightarrow>
      put_enrollments fault i ep st = (RequestValidationError, st)) \<and>
   status_code (RequestValidationError :: Student response) = 422 \<and>
   (sc_age sb = 0 \<or> email_str (sc_email sb) = None \<longrightarrow>
      validate_StudentCreate email_str sb = None) \<and>
   (su_age sp = Supplied (Some 0) \<or> (su_email sp = Supplied (Some m) \<and> email_str m = None) \<longrightarrow>
      validate_StudentUpdate email_str sp = None) \<and>
   (cc_credits cb = 0 \<longrightarrow> validate_CourseCreate cb = None) \<and>
   (cu_credits cp = Supplied (Some 0) \<longrightarrow> validate_CourseUpdate cp = None)"
  using validate_StudentCreate_examples [of sb email_str]
    validate_StudentUpdate_examples [of sp m email_str]
    validate_Course_examples(1) [of cb] validate_Course_examples(2) [of cp]
  by (simp add: post_students_def put_students_def post_courses_def put_courses_def
        post_enrollments_def put_enrollments_def)

theorem validation_rejects_before_store_witness:
  "post_students (\<lambda>m. if CHR ''@'' \<in> set m then Some m else None) None 5 5
     \<lparr>sc_name = ''John Doe'', sc_email = ''john@example.com'', sc_age = 0\<rparr> empty_store
     = (RequestValidationError, empty_store) \<and>
   post_students (\<lambda>m. if CHR ''@'' \<in> set m then Some m else None) None 5 5
     \<lparr>sc_name = ''John Doe'', sc_email = ''invalid-email'', sc_age = 20\<rparr> empty_store
     = (RequestValidationError, empty_store) \<and>
   post_courses None 5 5
     \<lparr>cc_title = ''Mathematics'', cc_description = None, cc_credits = 0,
      cc_instructor = ''Dr. Smith''\<rparr> empty_store
     = (RequestValidationError, empty_store) \<and>
   fst (post_students (\<lambda>m. if CHR ''@'' \<in> set m then Some m else None) None 5 5
     \<lparr>sc_name = ''John Doe'', sc_email = ''john@example.com'', sc_age = 20\<rparr> empty_store)
     = Response 201 \<lparr>s_id = 1, s_name = ''John Doe'', s_email = ''john@example.com'', s_age = 20,
                     s_created_at = 5, s_updated_at = 5\<rparr>"
  (is "post_students ?E None 5 5 ?a empty_store = ?r \<and> post_students ?E None 5 5 ?b empty_store = ?r \<and>
       post_courses None 5 5 ?c empty_store = ?rc \<and> ?ok")
proof -
  have a: "sc_age ?a = 0 \<or> ?E (sc_email ?a) = None" by simp
  have b: "sc_age ?b = 0 \<or> ?E (sc_email ?b) = None" by simp
  have c: "cc_credits ?c = 0" by simp
  note ta = validation_rejects_before_store [where email_str = "?E" and sb = "?a"]
  note tb = validation_rejects_before_store [where email_str = "?E" and sb = "?b"]
  note tc = validation_rejects_before_store [where cb = "?c"]
  have va: "validate_StudentCreate ?E ?a = None"
    by (rule ta [THEN conjunct2, THEN conjunct2, THEN conjunct2, THEN conjunct2, THEN conjunct2,
                 THEN conjunct2, THEN conjunct2, THEN conjunct1, THEN mp, OF a])
  have vb: "validate_StudentCreate ?E ?b = None"
    by (rule tb [THEN conjunct2, THEN conjunct2, THEN conjunct2, THEN conjunct2, THEN conjunct2,
                 THEN conjunct2, THEN conjunct2, THEN conjunct1, THEN mp, OF b])
  have vc: "validate_CourseCreate ?c = None"
    by (rule tc [THEN conjunct2, THEN conjunct2, THEN conjunct2, THEN conjunct2, THEN conjunct2,
                 THEN conjunct2, THEN conjunct2, THEN conjunct2, THEN conjunct2, THEN conjunct1,
                 THEN mp, OF c])
  have 1: "post_students ?E None 5 5 ?a empty_store = ?r"
    by (rule ta [THEN conjunct1, THEN mp, OF va])
  have 2: "post_students ?E None 5 5 ?b empty_store = ?r"
    by (rule tb [THEN conjunct1, THEN mp, OF vb])
  have 3: "post_courses None 5 5 ?c empty_store = ?rc"
    by (rule tc [THEN conjunct2, THEN conjunct2, THEN conjunct1, THEN mp, OF vc])
  have 4: ?ok
    by (simp add: post_students_def validate_StudentCreate_def str_ok_def int_ok_def
          create_student_def insert_student_def find_student_by_email_def empty_store_def
          Let_def next_id_def)
  show ?thesis
    by (intro conjI 1 2 3 4)
qed

end
